theory Spec2Isabelle
  imports Main "HOL-Library.Sublist"
begin

section \<open>Python string builtins used by the manifest\<close>

text \<open>
  A Python \<open>str\<close> is modelled as a \<open>string\<close> whose characters are the code points
  U+0000 to U+00FF. Within that range the decimal digits are exactly \<open>0\<close> to \<open>9\<close>, the
  whitespace characters of \<open>str.strip\<close> (\<open>str.isspace\<close>) are the ones listed in \<open>is_space\<close>,
  and the ones \<open>int\<close> skips around a number are those of \<open>is_int_space\<close>: \<open>int\<close> does
  not skip the separators U+001C to U+001F. The interpreter is one without a limit on the
  number of digits \<open>int\<close> converts (\<open>sys.set_int_max_str_digits(0)\<close>, or a release that has
  none).
\<close>

definition is_space :: "char \<Rightarrow> bool" where
  "is_space c = (c \<in> set [CHR 0x09, CHR 0x0A, CHR 0x0B, CHR 0x0C, CHR 0x0D,
                           CHR 0x1C, CHR 0x1D, CHR 0x1E, CHR 0x1F, CHR 0x20,
                           CHR 0x85, CHR 0xA0])"

definition is_int_space :: "char \<Rightarrow> bool" where
  "is_int_space c = (c \<in> set [CHR 0x09, CHR 0x0A, CHR 0x0B, CHR 0x0C, CHR 0x0D, CHR 0x20,
                               CHR 0x85, CHR 0xA0])"

definition digit_val :: "char \<Rightarrow> int option" where
  "digit_val c = map_of [(CHR ''0'', 0), (CHR ''1'', 1), (CHR ''2'', 2), (CHR ''3'', 3),
                         (CHR ''4'', 4), (CHR ''5'', 5), (CHR ''6'', 6), (CHR ''7'', 7),
                         (CHR ''8'', 8), (CHR ''9'', 9)] c"

text \<open>\<open>str.strip()\<close>: whitespace removed at both ends.\<close>

definition py_strip :: "string \<Rightarrow> string" where
  "py_strip s = rev (dropWhile is_space (rev (dropWhile is_space s)))"

text \<open>\<open>s.replace(old, new)\<close> for a one-character \<open>old\<close>.\<close>

definition str_replace :: "char \<Rightarrow> string \<Rightarrow> string \<Rightarrow> string" where
  "str_replace old new s = concat (map (\<lambda>c. if c = old then new else [c]) s)"

text \<open>\<open>s.split(sep)\<close> for a one-character \<open>sep\<close>: the result is never empty.\<close>

fun str_split :: "char \<Rightarrow> string \<Rightarrow> string list" where
  "str_split sep [] = [[]]"
| "str_split sep (c # cs) =
     (if c = sep then [] # str_split sep cs
      else (case str_split sep cs of
              [] \<Rightarrow> [[c]]
            | w # ws \<Rightarrow> (c # w) # ws))"

text \<open>
  \<open>int(s)\<close> in base ten: surrounding whitespace is skipped, one sign is allowed, then
  at least one digit, with single underscores allowed between digits. \<open>None\<close> is Python's
  \<open>ValueError\<close>.
\<close>

definition int_strip :: "string \<Rightarrow> string" where
  "int_strip s = rev (dropWhile is_int_space (rev (dropWhile is_int_space s)))"

fun int_digits :: "int \<Rightarrow> string \<Rightarrow> int option" where
  "int_digits acc [] = Some acc"
| "int_digits acc [c] =
     (case digit_val c of None \<Rightarrow> None | Some v \<Rightarrow> Some (acc * 10 + v))"
| "int_digits acc (c # d # ds) =
     (if c = CHR ''_'' then
        (case digit_val d of None \<Rightarrow> None | Some v \<Rightarrow> int_digits (acc * 10 + v) ds)
      else
        (case digit_val c of None \<Rightarrow> None | Some v \<Rightarrow> int_digits (acc * 10 + v) (d # ds)))"

definition int_unsigned :: "string \<Rightarrow> int option" where
  "int_unsigned s =
     (case s of
        [] \<Rightarrow> None
      | c # cs \<Rightarrow> (case digit_val c of None \<Rightarrow> None | Some v \<Rightarrow> int_digits v cs))"

definition py_int :: "string \<Rightarrow> int option" where
  "py_int s =
     (case int_strip s of
        [] \<Rightarrow> None
      | c # cs \<Rightarrow>
          if c = CHR ''+'' then int_unsigned cs
          else if c = CHR ''-'' then map_option uminus (int_unsigned cs)
          else int_unsigned (c # cs))"

text \<open>\<open>os.path.join(a, b)\<close> on POSIX.\<close>

definition path_join :: "string \<Rightarrow> string \<Rightarrow> string" where
  "path_join a b =
     (if b \<noteq> [] \<and> hd b = CHR ''/'' then b
      else if a = [] \<or> last a = CHR ''/'' then a @ b
      else a @ ''/'' @ b)"

section \<open>Errors, the interpreter's world and the objects the manifest builds\<close>

datatype error =
    RuntimeError string
  | FileNotFoundError string
  | IsADirectoryError string
  | PermissionError string
  | UnicodeDecodeError string
  | OSError string
  | ValueError string
  | IndexError

text \<open>
  What the manifest reads from its surroundings: the process environment, the file
  system, the working directory, the three spellings of the manifest's own directory
  (\<open>os.path.abspath(os.path.dirname(__file__))\<close>, \<open>str(Path(__file__).parent)\<close> and
  \<open>Path(__file__).resolve().parent\<close>), the module search path and the result of
  \<open>find_packages(exclude=('tests',))\<close>.

  The file system answers for every path. \<open>files p\<close> is what opening \<open>p\<close> for reading as
  text and reading it to the end gives: the exception raised (the file is missing, is a
  directory, may not be read, does not decode, ...), or the decoded text as it stands in
  the file, before line endings are translated (the manifest opens each file it reads at
  one place only, so the encoding is the one given there). \<open>write_error p\<close> is the exception raised
  by opening \<open>p\<close> for writing, writing to it and closing it (the directory is missing or
  may not be written, ...), if there is one.
\<close>

record world =
  environ :: "string \<rightharpoonup> string"
  files :: "string \<Rightarrow> error + string"
  write_error :: "string \<Rightarrow> error option"
  cwd :: string
  here :: string
  file_parent :: string
  file_resolved_parent :: string
  sys_path :: "string list"
  found_packages :: "string list"

text \<open>The eight per-tier parameter lists imported from \<open>spconv.core\<close>.\<close>

record ('g, 'c) spconv_core =
  SHUFFLE_SIMT_PARAMS :: "'g list"
  SHUFFLE_VOLTA_PARAMS :: "'g list"
  SHUFFLE_TURING_PARAMS :: "'g list"
  SHUFFLE_AMPERE_PARAMS :: "'g list"
  IMPLGEMM_SIMT_PARAMS :: "'c list"
  IMPLGEMM_VOLTA_PARAMS :: "'c list"
  IMPLGEMM_TURING_PARAMS :: "'c list"
  IMPLGEMM_AMPERE_PARAMS :: "'c list"

datatype unit_class =
    GemmMainUnitTest | ConvMainUnitTest
  | GemmTunerSimple | ConvTunerSimple | ConvGemmOps
  | SpconvOps | BoxOps | HashTable | CompileInfo | ExternalAllocator
  | PointCloudCompress | ExternalSpconvMatmul | InferenceOps

text \<open>
  Units are Python objects: each constructor call allocates a fresh object identifier in
  a store, and a unit handed to another constructor is handed over by reference.
\<close>

datatype ('g, 'c) ctor_arg =
    GemmParamList "'g list"
  | ConvParamList "'c list"
  | UnitRef nat

record ('g, 'c) unit_obj =
  unit_class :: unit_class
  ctor_args :: "('g, 'c) ctor_arg list"
  namespace :: "string option"

record pccm_extension =
  ext_units :: "nat list"
  ext_name :: string
  ext_source_dir :: string
  ext_std :: string
  ext_disable_pch :: bool
  ext_verbose :: bool

record ('g, 'c) machine = world +
  objects :: "nat \<rightharpoonup> ('g, 'c) unit_obj"
  next_oid :: nat
  extensions :: "pccm_extension list"

definition boot :: "world \<Rightarrow> ('g, 'c) machine" where
  "boot w = world.extend w
     (machine.fields (Map.empty :: nat \<rightharpoonup> ('g, 'c) unit_obj) 0 [])"

definition new_unit ::
  "unit_class \<Rightarrow> ('g, 'c) ctor_arg list \<Rightarrow> ('g, 'c) machine \<Rightarrow> nat \<times> ('g, 'c) machine" where
  "new_unit k args m =
     (next_oid m,
      m\<lparr>objects := (objects m)(next_oid m \<mapsto>
            \<lparr>unit_class = k, ctor_args = args, namespace = None\<rparr>),
        next_oid := Suc (next_oid m)\<rparr>)"

definition set_namespace :: "nat \<Rightarrow> string \<Rightarrow> ('g, 'c) machine \<Rightarrow> ('g, 'c) machine" where
  "set_namespace oid ns m =
     (case objects m oid of
        None \<Rightarrow> m
      | Some u \<Rightarrow> m\<lparr>objects := (objects m)(oid \<mapsto> u\<lparr>namespace := Some ns\<rparr>)\<rparr>)"

definition new_extension ::
  "nat list \<Rightarrow> string \<Rightarrow> string \<Rightarrow> string \<Rightarrow> bool \<Rightarrow> bool \<Rightarrow> ('g, 'c) machine
     \<Rightarrow> pccm_extension \<times> ('g, 'c) machine" where
  "new_extension us nm dir std pch vb m =
     (let e = \<lparr>ext_units = us, ext_name = nm, ext_source_dir = dir, ext_std = std,
                ext_disable_pch = pch, ext_verbose = vb\<rparr>
      in (e, m\<lparr>extensions := extensions m @ [e]\<rparr>))"

record setup_args =
  name :: string
  version :: string
  description :: string
  long_description :: string
  long_description_content_type :: string
  author :: string
  author_email :: string
  python_requires :: string
  url :: string
  packages :: "string list"
  install_requires :: "string list"
  extras_require :: "(string \<times> string list) list"
  include_package_data :: bool
  license :: string
  classifiers :: "string list"
  cmdclass :: "(string \<times> string) list"
  ext_modules :: "pccm_extension list"

section \<open>The manifest, statement by statement\<close>

definition NAME :: string where "NAME = ''spconv''"
definition DESCRIPTION :: string where "DESCRIPTION = ''spatial sparse convolution''"
definition URL :: string where "URL = ''https://github.com/traveller59/spconv''"
definition EMAIL :: string where "EMAIL = ''yanyan.sub@outlook.com''"
definition AUTHOR :: string where "AUTHOR = ''Yan Yan''"
definition REQUIRES_PYTHON :: string where "REQUIRES_PYTHON = ''>=3.9''"

text \<open>\<open>os.environ.get(key, default)\<close>.\<close>

definition environ_get :: "(string \<rightharpoonup> string) \<Rightarrow> string \<Rightarrow> string \<Rightarrow> string" where
  "environ_get env key dflt = (case env key of None \<Rightarrow> dflt | Some v \<Rightarrow> v)"

text \<open>
  The release name and the \<open>cumm\<close> requirement: the \<open>if CUMM_CUDA_VERSION: ... else: raise\<close>
  block. The first component of the result is \<open>RELEASE_NAME\<close>, the second \<open>deps\<close>.
\<close>

definition release_config :: "string \<Rightarrow> error + (string \<times> string list)" where
  "release_config CUMM_CUDA_VERSION =
     (let RELEASE_NAME = NAME; deps = [''cumm''] in
      if CUMM_CUDA_VERSION \<noteq> [] then
        (let cuda_ver_str = str_replace CHR ''.'' [] CUMM_CUDA_VERSION
         in Inr (RELEASE_NAME @ ''-cu'' @ cuda_ver_str,
                 [''cumm-cu'' @ cuda_ver_str @ ''>=0.7.11, <1.0.0'']))
      else
        Inl (RuntimeError ''CUMM_CUDA_VERSION must be set. e.g. export CUMM_CUDA_VERSION=11.8''))"

definition REQUIRED :: "string list \<Rightarrow> string list" where
  "REQUIRED deps =
     [''pccm>=0.4.16'', ''ccimport>=0.4.4'', ''pybind11>=2.6.0'', ''fire'', ''numpy<2.0.0'']
     @ deps"

text \<open>
  A file opened in text mode is read with universal newlines: \<open>CR LF\<close> and a lone \<open>CR\<close>
  both arrive as \<open>LF\<close>.
\<close>

fun universal_newlines :: "string \<Rightarrow> string" where
  "universal_newlines [] = []"
| "universal_newlines [c] = (if c = CHR 0x0D then [CHR 0x0A] else [c])"
| "universal_newlines (c # d # ds) =
     (if c = CHR 0x0D \<and> d = CHR 0x0A then CHR 0x0A # universal_newlines ds
      else if c = CHR 0x0D then CHR 0x0A # universal_newlines (d # ds)
      else c # universal_newlines (d # ds))"

text \<open>\<open>with open(p) as f: f.read()\<close>.\<close>

definition read_text :: "(string \<Rightarrow> error + string) \<Rightarrow> string \<Rightarrow> error + string" where
  "read_text fs p =
     (case fs p of Inl e \<Rightarrow> Inl e | Inr raw \<Rightarrow> Inr (universal_newlines raw))"

text \<open>
  The \<open>try: ... except FileNotFoundError\<close> block around \<open>README.md\<close>: only a
  FileNotFoundError is caught, any other exception of the read escapes.
\<close>

definition read_long_description ::
  "(string \<Rightarrow> error + string) \<Rightarrow> string \<Rightarrow> error + string" where
  "read_long_description fs hr =
     (case read_text fs (path_join hr ''README.md'') of
        Inr content \<Rightarrow> Inr ([CHR 0x0A] @ content)
      | Inl e \<Rightarrow> (case e of FileNotFoundError p \<Rightarrow> Inr DESCRIPTION | _ \<Rightarrow> Inl e))"

text \<open>\<open>open('version.txt', 'r')\<close> is relative to the working directory and is not guarded.\<close>

definition read_version :: "(string \<Rightarrow> error + string) \<Rightarrow> string \<Rightarrow> error + string" where
  "read_version fs wd =
     (case read_text fs (path_join wd ''version.txt'') of
        Inl e \<Rightarrow> Inl e
      | Inr content \<Rightarrow> Inr (py_strip content))"

definition version_path :: "string \<Rightarrow> string" where
  "version_path hr = path_join (path_join hr NAME) ''__version__.py''"

text \<open>
  \<open>open(version_path, 'w')\<close> is not guarded either. A write that raises is taken to
  leave the files as they were.
\<close>

definition write_version :: "string \<Rightarrow> ('g, 'c) machine \<Rightarrow> error + ('g, 'c) machine" where
  "write_version ver m =
     (case write_error m (version_path (here m)) of
        Some e \<Rightarrow> Inl e
      | None \<Rightarrow>
          Inr (m\<lparr>files := (files m)(version_path (here m) :=
                 Inr (''__version__ = '' @ [CHR 0x27] @ ver @ [CHR 0x27] @ [CHR 0x0A]))\<rparr>))"

definition all_shuffle :: "('g, 'c) spconv_core \<Rightarrow> 'g list" where
  "all_shuffle core =
     SHUFFLE_SIMT_PARAMS core @ SHUFFLE_VOLTA_PARAMS core
     @ SHUFFLE_TURING_PARAMS core @ SHUFFLE_AMPERE_PARAMS core"

definition all_imp :: "('g, 'c) spconv_core \<Rightarrow> 'c list" where
  "all_imp core =
     IMPLGEMM_SIMT_PARAMS core @ IMPLGEMM_VOLTA_PARAMS core
     @ IMPLGEMM_TURING_PARAMS core @ IMPLGEMM_AMPERE_PARAMS core"

text \<open>\<open>tuple(map(int, ...))\<close>: the first component that does not parse raises.\<close>

fun map_int :: "string list \<Rightarrow> error + int list" where
  "map_int [] = Inr []"
| "map_int (s # ss) =
     (case py_int s of
        None \<Rightarrow> Inl (ValueError s)
      | Some n \<Rightarrow> (case map_int ss of Inl e \<Rightarrow> Inl e | Inr ns \<Rightarrow> Inr (n # ns)))"

text \<open>The choice of the C++ standard; \<open>cuda_ver_tuple[0]\<close> raises on an empty tuple.\<close>

definition select_std :: "string \<Rightarrow> error + string" where
  "select_std CUMM_CUDA_VERSION =
     (let std = ''c++17'' in
      case map_int (str_split CHR ''.'' CUMM_CUDA_VERSION) of
        Inl e \<Rightarrow> Inl e
      | Inr cuda_ver_tuple \<Rightarrow>
          (case cuda_ver_tuple of
             [] \<Rightarrow> Inl IndexError
           | major # _ \<Rightarrow> Inr (if major < 11 then ''c++14'' else std)))"



definition CLASSIFIERS :: "string list" where
  "CLASSIFIERS =
     [''License :: OSI Approved :: Apache Software License'',
      ''Programming Language :: Python'',
      ''Programming Language :: Python :: 3'',
      ''Programming Language :: Python :: 3.9'',
      ''Programming Language :: Python :: 3.10'',
      ''Programming Language :: Python :: 3.11'',
      ''Programming Language :: Python :: 3.12'',
      ''Programming Language :: Python :: 3.13'',
      ''Programming Language :: Python :: Implementation :: CPython'']"

text \<open>
  The kernel main units \<open>cu\<close> and \<open>convcu\<close>, built before the C++ standard is chosen.
\<close>

definition build_main_units ::
  "('g, 'c) spconv_core \<Rightarrow> ('g, 'c) machine \<Rightarrow> (nat \<times> nat) \<times> ('g, 'c) machine" where
  "build_main_units core m =
     (let (cu, m) = new_unit GemmMainUnitTest [GemmParamList (all_shuffle core)] m;
          m = set_namespace cu ''cumm.gemm.main'' m;
          (convcu, m) = new_unit ConvMainUnitTest [ConvParamList (all_imp core)] m;
          m = set_namespace convcu ''cumm.conv.main'' m
      in ((cu, convcu), m))"

text \<open>The tuners, the composite unit, the other units and the list \<open>cus\<close>.\<close>

definition build_cus ::
  "nat \<Rightarrow> nat \<Rightarrow> ('g, 'c) machine \<Rightarrow> nat list \<times> ('g, 'c) machine" where
  "build_cus cu convcu m =
     (let (gemmtuner, m) = new_unit GemmTunerSimple [UnitRef cu] m;
          m = set_namespace gemmtuner ''csrc.sparse.convops.gemmops'' m;
          (convtuner, m) = new_unit ConvTunerSimple [UnitRef convcu] m;
          m = set_namespace convtuner ''csrc.sparse.convops.convops'' m;
          (convops, m) = new_unit ConvGemmOps [UnitRef gemmtuner, UnitRef convtuner] m;
          m = set_namespace convops ''csrc.sparse.convops.spops'' m;
          (u3, m) = new_unit SpconvOps [] m;
          (u4, m) = new_unit BoxOps [] m;
          (u5, m) = new_unit HashTable [] m;
          (u6, m) = new_unit CompileInfo [] m;
          (u7, m) = new_unit ExternalAllocator [] m;
          (u8, m) = new_unit PointCloudCompress [] m;
          (u9, m) = new_unit ExternalSpconvMatmul [] m;
          (u10, m) = new_unit InferenceOps [] m;
          cus = [gemmtuner, convtuner, convops, u3, u4, u5, u6, u7, u8, u9, u10];
          cus = cus @ [cu, convcu]
      in (cus, m))"

text \<open>
  The whole manifest. The result pairs what the run ends with (the exception that
  escaped, or the arguments \<open>setup\<close> is called with) with the machine as the run left it.
\<close>

definition manifest ::
  "('g, 'c) spconv_core \<Rightarrow> world \<Rightarrow> (error + setup_args) \<times> ('g, 'c) machine" where
  "manifest core w =
     (let m = boot w;
          CUMM_CUDA_VERSION = environ_get (environ m) ''CUMM_CUDA_VERSION'' [] in
      case release_config CUMM_CUDA_VERSION of
        Inl e \<Rightarrow> (Inl e, m)
      | Inr (RELEASE_NAME, deps) \<Rightarrow>
     (let m = m\<lparr>sys_path := sys_path m @ [file_parent m]\<rparr> in
      case read_long_description (files m) (here m) of
        Inl e \<Rightarrow> (Inl e, m)
      | Inr long_desc \<Rightarrow>
     (case read_version (files m) (cwd m) of
        Inl e \<Rightarrow> (Inl e, m)
      | Inr ver \<Rightarrow>
     (case write_version ver m of
        Inl e \<Rightarrow> (Inl e, m)
      | Inr m \<Rightarrow>
     (let ((cu, convcu), m) = build_main_units core m in
      case select_std CUMM_CUDA_VERSION of
        Inl e \<Rightarrow> (Inl e, m)
      | Inr std \<Rightarrow>
     (let (cus, m) = build_cus cu convcu m;
          (ext, m) = new_extension cus ''spconv/core_cc''
                       (path_join (file_resolved_parent m) ''spconv'') std True True m
      in (Inr \<lparr>name = RELEASE_NAME,
                version = ver,
                description = DESCRIPTION,
                long_description = long_desc,
                long_description_content_type = ''text/markdown'',
                author = AUTHOR,
                author_email = EMAIL,
                python_requires = REQUIRES_PYTHON,
                url = URL,
                packages = found_packages m,
                install_requires = REQUIRED deps,
                extras_require = [],
                include_package_data = True,
                license = ''Apache License 2.0'',
                classifiers = CLASSIFIERS,
                cmdclass = [(''build_ext'', ''PCCMBuild'')],
                ext_modules = [ext]\<rparr>, m)))))))"

section \<open>Example inputs\<close>

text \<open>
  A catalogue of numbered parameters, and worlds around a checkout in \<open>/work/spconv\<close>:
  a release build for CUDA 11.8 without a README, and variations of it.
\<close>

definition example_core :: "(nat, nat) spconv_core" where
  "example_core =
     \<lparr>SHUFFLE_SIMT_PARAMS = [1], SHUFFLE_VOLTA_PARAMS = [2, 3],
      SHUFFLE_TURING_PARAMS = [], SHUFFLE_AMPERE_PARAMS = [4],
      IMPLGEMM_SIMT_PARAMS = [5], IMPLGEMM_VOLTA_PARAMS = [6],
      IMPLGEMM_TURING_PARAMS = [7], IMPLGEMM_AMPERE_PARAMS = [8, 9]\<rparr>"

definition example_world :: world where
  "example_world =
     \<lparr>environ = [''CUMM_CUDA_VERSION'' \<mapsto> ''11.8''],
      files = (\<lambda>p. if p = ''/work/spconv/version.txt'' then Inr (''2.3.8'' @ [CHR 0x0A])
                    else Inl (FileNotFoundError p)),
      write_error = (\<lambda>p. None),
      cwd = ''/work/spconv'',
      here = ''/work/spconv'',
      file_parent = ''/work/spconv'',
      file_resolved_parent = ''/work/spconv'',
      sys_path = [],
      found_packages = [''spconv'']\<rparr>"

definition world_with_version :: "string option \<Rightarrow> world" where
  "world_with_version v =
     example_world\<lparr>environ := (\<lambda>k. if k = ''CUMM_CUDA_VERSION'' then v else None)\<rparr>"

text \<open>The same checkout with a README: what reading it gives is the argument.\<close>

definition world_with_readme :: "error + string \<Rightarrow> world" where
  "world_with_readme r =
     example_world\<lparr>files := (files example_world)(''/work/spconv/README.md'' := r)\<rparr>"

definition world_elsewhere :: world where
  "world_elsewhere =
     \<lparr>environ = [''CUMM_CUDA_VERSION'' \<mapsto> ''11.8'', ''HOME'' \<mapsto> ''/root''],
      files = (\<lambda>p. if p = ''/tmp/build/version.txt'' then Inr (''2.3.8'' @ [CHR 0x0A])
                    else if p = ''/tmp/build/README.md'' then Inr ''readme''
                    else Inl (FileNotFoundError p)),
      write_error = (\<lambda>p. None),
      cwd = ''/tmp/build'',
      here = ''/tmp/build'',
      file_parent = ''.'',
      file_resolved_parent = ''/tmp/build'',
      sys_path = [''/usr/lib/python3''],
      found_packages = [''spconv'', ''spconv.core'']\<rparr>"


definition world_without_package_dir :: world where
  "world_without_package_dir =
     example_world\<lparr>write_error := (\<lambda>p. Some (FileNotFoundError p))\<rparr>"

section \<open>Facts about the string builtins and the version parser\<close>

lemma str_replace_removes: "str_replace c [] s = filter (\<lambda>x. x \<noteq> c) s"
  by (induction s) (simp_all add: str_replace_def)


lemma path_join_last:
  assumes "b \<noteq> []"
  shows "last (path_join a b) = last b"
  using assms by (simp add: path_join_def)

lemma readme_is_not_version_file:
  "path_join a ''README.md'' \<noteq> path_join b ''version.txt''"
proof
  assume "path_join a ''README.md'' = path_join b ''version.txt''"
  then have "last (path_join a ''README.md'') = last (path_join b ''version.txt'')" by simp
  then show False by (simp add: path_join_last)
qed













section \<open>The six ways a run of the manifest ends\<close>

lemmas manifest_defs =
  manifest_def boot_def Let_def build_main_units_def build_cus_def new_unit_def
  set_namespace_def new_extension_def write_version_def world.defs machine.defs
  release_config_def environ_get_def

lemma manifest_unset:
  assumes "environ w ''CUMM_CUDA_VERSION'' = None \<or> environ w ''CUMM_CUDA_VERSION'' = Some []"
  shows "manifest core w =
    (Inl (RuntimeError ''CUMM_CUDA_VERSION must be set. e.g. export CUMM_CUDA_VERSION=11.8''),
     boot w)"
  using assms by (auto simp: manifest_defs)

lemma manifest_readme_error:
  assumes "environ w ''CUMM_CUDA_VERSION'' = Some v" "v \<noteq> []"
    and "read_long_description (files w) (here w) = Inl e"
  shows "manifest core w = (Inl e, (boot w)\<lparr>sys_path := sys_path w @ [file_parent w]\<rparr>)"
  using assms by (simp add: manifest_defs)

lemma manifest_version_error:
  assumes "environ w ''CUMM_CUDA_VERSION'' = Some v" "v \<noteq> []"
    and "read_long_description (files w) (here w) = Inr ld"
    and "read_version (files w) (cwd w) = Inl e"
  shows "manifest core w = (Inl e, (boot w)\<lparr>sys_path := sys_path w @ [file_parent w]\<rparr>)"
  using assms by (simp add: manifest_defs)

lemma manifest_write_error:
  assumes "environ w ''CUMM_CUDA_VERSION'' = Some v" "v \<noteq> []"
    and "read_long_description (files w) (here w) = Inr ld"
    and "read_version (files w) (cwd w) = Inr ver"
    and "write_error w (version_path (here w)) = Some e"
  shows "manifest core w = (Inl e, (boot w)\<lparr>sys_path := sys_path w @ [file_parent w]\<rparr>)"
  using assms by (simp add: manifest_defs)

lemma manifest_bad_version:
  assumes "environ w ''CUMM_CUDA_VERSION'' = Some v" "v \<noteq> []"
    and "read_long_description (files w) (here w) = Inr ld"
    and "read_version (files w) (cwd w) = Inr ver"
    and "write_error w (version_path (here w)) = None"
    and "select_std v = Inl e"
  shows "manifest core w =
    (Inl e,
     (boot w)\<lparr>sys_path := sys_path w @ [file_parent w],
       files := (files w)(version_path (here w) :=
          Inr (''__version__ = '' @ [CHR 0x27] @ ver @ [CHR 0x27] @ [CHR 0x0A])),
       objects :=
         [0 \<mapsto> \<lparr>unit_class = GemmMainUnitTest,
                ctor_args = [GemmParamList (all_shuffle core)],
                namespace = Some ''cumm.gemm.main''\<rparr>,
          1 \<mapsto> \<lparr>unit_class = ConvMainUnitTest,
                ctor_args = [ConvParamList (all_imp core)],
                namespace = Some ''cumm.conv.main''\<rparr>],
       next_oid := 2\<rparr>)"
  using assms by (simp add: manifest_defs eval_nat_numeral)

lemma manifest_run:
  assumes "environ w ''CUMM_CUDA_VERSION'' = Some v" "v \<noteq> []"
    and "read_long_description (files w) (here w) = Inr ld"
    and "read_version (files w) (cwd w) = Inr ver"
    and "write_error w (version_path (here w)) = None"
    and "select_std v = Inr std"
  shows "manifest core w =
    (Inr \<lparr>name = NAME @ ''-cu'' @ str_replace CHR ''.'' [] v,
          version = ver,
          description = DESCRIPTION,
          long_description = ld,
          long_description_content_type = ''text/markdown'',
          author = AUTHOR, author_email = EMAIL, python_requires = REQUIRES_PYTHON, url = URL,
          packages = found_packages w,
          install_requires =
            REQUIRED [''cumm-cu'' @ str_replace CHR ''.'' [] v @ ''>=0.7.11, <1.0.0''],
          extras_require = [], include_package_data = True,
          license = ''Apache License 2.0'', classifiers = CLASSIFIERS,
          cmdclass = [(''build_ext'', ''PCCMBuild'')],
          ext_modules = [\<lparr>ext_units = [2, 3, 4, 5, 6, 7, 8, 9, 10, 11, 12, 0, 1],
             ext_name = ''spconv/core_cc'',
             ext_source_dir = path_join (file_resolved_parent w) ''spconv'',
             ext_std = std, ext_disable_pch = True, ext_verbose = True\<rparr>]\<rparr>,
     (boot w)\<lparr>sys_path := sys_path w @ [file_parent w],
       files := (files w)(version_path (here w) :=
          Inr (''__version__ = '' @ [CHR 0x27] @ ver @ [CHR 0x27] @ [CHR 0x0A])),
       objects :=
         [0 \<mapsto> \<lparr>unit_class = GemmMainUnitTest,
                ctor_args = [GemmParamList (all_shuffle core)],
                namespace = Some ''cumm.gemm.main''\<rparr>,
          1 \<mapsto> \<lparr>unit_class = ConvMainUnitTest,
                ctor_args = [ConvParamList (all_imp core)],
                namespace = Some ''cumm.conv.main''\<rparr>,
          2 \<mapsto> \<lparr>unit_class = GemmTunerSimple, ctor_args = [UnitRef 0],
                namespace = Some ''csrc.sparse.convops.gemmops''\<rparr>,
          3 \<mapsto> \<lparr>unit_class = ConvTunerSimple, ctor_args = [UnitRef 1],
                namespace = Some ''csrc.sparse.convops.convops''\<rparr>,
          4 \<mapsto> \<lparr>unit_class = ConvGemmOps, ctor_args = [UnitRef 2, UnitRef 3],
                namespace = Some ''csrc.sparse.convops.spops''\<rparr>,
          5 \<mapsto> \<lparr>unit_class = SpconvOps, ctor_args = [], namespace = None\<rparr>,
          6 \<mapsto> \<lparr>unit_class = BoxOps, ctor_args = [], namespace = None\<rparr>,
          7 \<mapsto> \<lparr>unit_class = HashTable, ctor_args = [], namespace = None\<rparr>,
          8 \<mapsto> \<lparr>unit_class = CompileInfo, ctor_args = [], namespace = None\<rparr>,
          9 \<mapsto> \<lparr>unit_class = ExternalAllocator, ctor_args = [], namespace = None\<rparr>,
          10 \<mapsto> \<lparr>unit_class = PointCloudCompress, ctor_args = [], namespace = None\<rparr>,
          11 \<mapsto> \<lparr>unit_class = ExternalSpconvMatmul, ctor_args = [], namespace = None\<rparr>,
          12 \<mapsto> \<lparr>unit_class = InferenceOps, ctor_args = [], namespace = None\<rparr>],
       next_oid := 13,
       extensions := [\<lparr>ext_units = [2, 3, 4, 5, 6, 7, 8, 9, 10, 11, 12, 0, 1],
             ext_name = ''spconv/core_cc'',
             ext_source_dir = path_join (file_resolved_parent w) ''spconv'',
             ext_std = std, ext_disable_pch = True, ext_verbose = True\<rparr>]\<rparr>)"
  using assms by (simp add: manifest_defs eval_nat_numeral)

text \<open>
  How a run ends, read off what the world answers.
\<close>

lemma manifest_outcome:
  "fst (manifest core w) =
     (case environ w ''CUMM_CUDA_VERSION'' of
        None \<Rightarrow> Inl (RuntimeError ''CUMM_CUDA_VERSION must be set. e.g. export CUMM_CUDA_VERSION=11.8'')
      | Some v \<Rightarrow>
          if v = [] then Inl (RuntimeError ''CUMM_CUDA_VERSION must be set. e.g. export CUMM_CUDA_VERSION=11.8'')
          else (case read_long_description (files w) (here w) of
                  Inl e \<Rightarrow> Inl e
                | Inr ld \<Rightarrow>
                    (case read_version (files w) (cwd w) of
                       Inl e \<Rightarrow> Inl e
                     | Inr ver \<Rightarrow>
                         (case write_error w (version_path (here w)) of
                            Some e \<Rightarrow> Inl e
                          | None \<Rightarrow>
                              (case select_std v of
                                 Inl e \<Rightarrow> Inl e
                               | Inr std \<Rightarrow> Inr \<lparr>name = NAME @ ''-cu'' @ str_replace CHR ''.'' [] v,
          version = ver,
          description = DESCRIPTION,
          long_description = ld,
          long_description_content_type = ''text/markdown'',
          author = AUTHOR, author_email = EMAIL, python_requires = REQUIRES_PYTHON, url = URL,
          packages = found_packages w,
          install_requires =
            REQUIRED [''cumm-cu'' @ str_replace CHR ''.'' [] v @ ''>=0.7.11, <1.0.0''],
          extras_require = [], include_package_data = True,
          license = ''Apache License 2.0'', classifiers = CLASSIFIERS,
          cmdclass = [(''build_ext'', ''PCCMBuild'')],
          ext_modules = [\<lparr>ext_units = [2, 3, 4, 5, 6, 7, 8, 9, 10, 11, 12, 0, 1],
             ext_name = ''spconv/core_cc'',
             ext_source_dir = path_join (file_resolved_parent w) ''spconv'',
             ext_std = std, ext_disable_pch = True, ext_verbose = True\<rparr>]\<rparr>)))))"
proof (cases "environ w ''CUMM_CUDA_VERSION''")
  case None
  with manifest_unset [of w core] show ?thesis by simp
next
  case (Some v)
  note env = this
  show ?thesis
  proof (cases "v = []")
    case True
    with env manifest_unset [of w core] show ?thesis by simp
  next
    case False
    note ne = this
    show ?thesis
    proof (cases "read_long_description (files w) (here w)")
      case (Inl e)
      with manifest_readme_error [OF env ne Inl, of core] env ne show ?thesis by simp
    next
      case (Inr ld)
      note rd = this
      show ?thesis
      proof (cases "read_version (files w) (cwd w)")
        case (Inl e)
        with manifest_version_error [OF env ne rd Inl, of core] env ne rd show ?thesis by simp
      next
        case (Inr ver)
        note vr = this
        show ?thesis
        proof (cases "write_error w (version_path (here w))")
          case (Some e)
          with manifest_write_error [OF env ne rd vr Some, of core] env ne rd vr
          show ?thesis by simp
        next
          case None
          note wr = this
          show ?thesis
          proof (cases "select_std v")
            case (Inl e)
            with manifest_bad_version [OF env ne rd vr wr Inl, of core] env ne rd vr wr
            show ?thesis by simp
          next
            case (Inr std)
            with manifest_run [OF env ne rd vr wr Inr, of core] env ne rd vr wr
            show ?thesis by simp
          qed
        qed
      qed
    qed
  qed
qed


text \<open>A run ends in a call of \<open>setup\<close> only along the last of the six ways.\<close>

lemma manifest_Inr_conditions:
  assumes "manifest core w = (Inr args, m)"
  shows "\<exists>v ld ver std. environ w ''CUMM_CUDA_VERSION'' = Some v \<and> v \<noteq> []
           \<and> read_long_description (files w) (here w) = Inr ld
           \<and> read_version (files w) (cwd w) = Inr ver
           \<and> write_error w (version_path (here w)) = None
           \<and> select_std v = Inr std"
proof -
  from assms have "fst (manifest core w) = Inr args" by simp
  then show ?thesis
    unfolding manifest_outcome
    by (auto split: option.splits sum.splits if_splits)
qed

text \<open>The store and the extension of a run that reached \<open>setup\<close>.\<close>

lemma run_objects:
  assumes "manifest core w = (Inr args, m)"
  shows "objects m =
         [0 \<mapsto> \<lparr>unit_class = GemmMainUnitTest,
                ctor_args = [GemmParamList (all_shuffle core)],
                namespace = Some ''cumm.gemm.main''\<rparr>,
          1 \<mapsto> \<lparr>unit_class = ConvMainUnitTest,
                ctor_args = [ConvParamList (all_imp core)],
                namespace = Some ''cumm.conv.main''\<rparr>,
          2 \<mapsto> \<lparr>unit_class = GemmTunerSimple, ctor_args = [UnitRef 0],
                namespace = Some ''csrc.sparse.convops.gemmops''\<rparr>,
          3 \<mapsto> \<lparr>unit_class = ConvTunerSimple, ctor_args = [UnitRef 1],
                namespace = Some ''csrc.sparse.convops.convops''\<rparr>,
          4 \<mapsto> \<lparr>unit_class = ConvGemmOps, ctor_args = [UnitRef 2, UnitRef 3],
                namespace = Some ''csrc.sparse.convops.spops''\<rparr>,
          5 \<mapsto> \<lparr>unit_class = SpconvOps, ctor_args = [], namespace = None\<rparr>,
          6 \<mapsto> \<lparr>unit_class = BoxOps, ctor_args = [], namespace = None\<rparr>,
          7 \<mapsto> \<lparr>unit_class = HashTable, ctor_args = [], namespace = None\<rparr>,
          8 \<mapsto> \<lparr>unit_class = CompileInfo, ctor_args = [], namespace = None\<rparr>,
          9 \<mapsto> \<lparr>unit_class = ExternalAllocator, ctor_args = [], namespace = None\<rparr>,
          10 \<mapsto> \<lparr>unit_class = PointCloudCompress, ctor_args = [], namespace = None\<rparr>,
          11 \<mapsto> \<lparr>unit_class = ExternalSpconvMatmul, ctor_args = [], namespace = None\<rparr>,
          12 \<mapsto> \<lparr>unit_class = InferenceOps, ctor_args = [], namespace = None\<rparr>]"
    and "\<exists>std. ext_modules args =
          [\<lparr>ext_units = [2, 3, 4, 5, 6, 7, 8, 9, 10, 11, 12, 0, 1],
             ext_name = ''spconv/core_cc'',
             ext_source_dir = path_join (file_resolved_parent w) ''spconv'',
             ext_std = std, ext_disable_pch = True, ext_verbose = True\<rparr>]"
    and "extensions m = ext_modules args"
proof -
  from manifest_Inr_conditions [OF assms] obtain v ld ver std where
    c: "environ w ''CUMM_CUDA_VERSION'' = Some v" "v \<noteq> []"
       "read_long_description (files w) (here w) = Inr ld"
       "read_version (files w) (cwd w) = Inr ver"
       "write_error w (version_path (here w)) = None"
       "select_std v = Inr std"
    by blast
  note r = manifest_run [OF c, of core]
  from assms have m: "m = snd (manifest core w)" and a: "args = projr (fst (manifest core w))"
    by simp_all
  from r show "objects m =
         [0 \<mapsto> \<lparr>unit_class = GemmMainUnitTest,
                ctor_args = [GemmParamList (all_shuffle core)],
                namespace = Some ''cumm.gemm.main''\<rparr>,
          1 \<mapsto> \<lparr>unit_class = ConvMainUnitTest,
                ctor_args = [ConvParamList (all_imp core)],
                namespace = Some ''cumm.conv.main''\<rparr>,
          2 \<mapsto> \<lparr>unit_class = GemmTunerSimple, ctor_args = [UnitRef 0],
                namespace = Some ''csrc.sparse.convops.gemmops''\<rparr>,
          3 \<mapsto> \<lparr>unit_class = ConvTunerSimple, ctor_args = [UnitRef 1],
                namespace = Some ''csrc.sparse.convops.convops''\<rparr>,
          4 \<mapsto> \<lparr>unit_class = ConvGemmOps, ctor_args = [UnitRef 2, UnitRef 3],
                namespace = Some ''csrc.sparse.convops.spops''\<rparr>,
          5 \<mapsto> \<lparr>unit_class = SpconvOps, ctor_args = [], namespace = None\<rparr>,
          6 \<mapsto> \<lparr>unit_class = BoxOps, ctor_args = [], namespace = None\<rparr>,
          7 \<mapsto> \<lparr>unit_class = HashTable, ctor_args = [], namespace = None\<rparr>,
          8 \<mapsto> \<lparr>unit_class = CompileInfo, ctor_args = [], namespace = None\<rparr>,
          9 \<mapsto> \<lparr>unit_class = ExternalAllocator, ctor_args = [], namespace = None\<rparr>,
          10 \<mapsto> \<lparr>unit_class = PointCloudCompress, ctor_args = [], namespace = None\<rparr>,
          11 \<mapsto> \<lparr>unit_class = ExternalSpconvMatmul, ctor_args = [], namespace = None\<rparr>,
          12 \<mapsto> \<lparr>unit_class = InferenceOps, ctor_args = [], namespace = None\<rparr>]"
    by (simp add: m)
  from r show "\<exists>std. ext_modules args =
          [\<lparr>ext_units = [2, 3, 4, 5, 6, 7, 8, 9, 10, 11, 12, 0, 1],
             ext_name = ''spconv/core_cc'',
             ext_source_dir = path_join (file_resolved_parent w) ''spconv'',
             ext_std = std, ext_disable_pch = True, ext_verbose = True\<rparr>]"
    by (simp add: m a)
  from r show "extensions m = ext_modules args"
    by (simp add: m a)
qed

lemma run_fields:
  assumes "manifest core w = (Inr args, m)"
  shows "\<exists>v. environ w ''CUMM_CUDA_VERSION'' = Some v \<and> v \<noteq> []
           \<and> name args = NAME @ ''-cu'' @ str_replace CHR ''.'' [] v
           \<and> install_requires args =
               REQUIRED [''cumm-cu'' @ str_replace CHR ''.'' [] v @ ''>=0.7.11, <1.0.0'']
           \<and> (\<exists>std. select_std v = Inr std \<and> map ext_std (ext_modules args) = [std])"
    and "read_long_description (files w) (here w) = Inr (long_description args)"
    and "read_version (files w) (cwd w) = Inr (version args)"
proof -
  from manifest_Inr_conditions [OF assms] obtain v ld ver std where
    c: "environ w ''CUMM_CUDA_VERSION'' = Some v" "v \<noteq> []"
       "read_long_description (files w) (here w) = Inr ld"
       "read_version (files w) (cwd w) = Inr ver"
       "write_error w (version_path (here w)) = None"
       "select_std v = Inr std"
    by blast
  note r = manifest_run [OF c, of core]
  from assms have a: "args = projr (fst (manifest core w))" by simp
  from r c show "\<exists>v. environ w ''CUMM_CUDA_VERSION'' = Some v \<and> v \<noteq> []
           \<and> name args = NAME @ ''-cu'' @ str_replace CHR ''.'' [] v
           \<and> install_requires args =
               REQUIRED [''cumm-cu'' @ str_replace CHR ''.'' [] v @ ''>=0.7.11, <1.0.0'']
           \<and> (\<exists>std. select_std v = Inr std \<and> map ext_std (ext_modules args) = [std])"
    by (simp add: a)
  from r c show "read_long_description (files w) (here w) = Inr (long_description args)"
    by (simp add: a)
  from r c show "read_version (files w) (cwd w) = Inr (version args)"
    by (simp add: a)
qed

section \<open>Example runs\<close>

lemma select_std_11_8: "select_std ''11.8'' = Inr ''c++17''"
  by (simp add: select_std_def py_int_def int_strip_def is_int_space_def int_unsigned_def digit_val_def)

lemma example_world_inputs:
  "environ example_world ''CUMM_CUDA_VERSION'' = Some ''11.8''"
  "read_long_description (files example_world) (here example_world)
     = Inr ''spatial sparse convolution''"
  "read_version (files example_world) (cwd example_world) = Inr ''2.3.8''"
  "write_error example_world (version_path (here example_world)) = None"
  by (simp_all add: example_world_def path_join_def read_long_description_def read_version_def
        read_text_def DESCRIPTION_def py_strip_def is_space_def)

lemma example_run:
  "\<exists>args m. manifest example_core example_world = (Inr args, m)"
  using manifest_run [OF example_world_inputs(1) _ example_world_inputs(2,3,4) select_std_11_8,
      of example_core]
  by simp

section \<open>The claims\<close>

text \<open>
  C1. In every run that reaches \<open>setup\<close>, the catalogue handed to the GEMM kernel unit is
  exactly \<open>SHUFFLE_SIMT_PARAMS @ SHUFFLE_VOLTA_PARAMS @ SHUFFLE_TURING_PARAMS @
  SHUFFLE_AMPERE_PARAMS\<close> and the one handed to the convolution kernel unit is exactly
  \<open>IMPLGEMM_SIMT_PARAMS @ IMPLGEMM_VOLTA_PARAMS @ IMPLGEMM_TURING_PARAMS @
  IMPLGEMM_AMPERE_PARAMS\<close>: the four tiers in the order SIMT, Volta, Turing, Ampere, nothing
  dropped, added or reordered. Both units are in the extension, and no other unit is given a
  parameter list.
\<close>

theorem C1_catalogue_is_tier_concatenation:
  assumes "manifest core w = (Inr args, m)"
  shows "\<exists>ext cu convcu. ext_modules args = [ext]
     \<and> cu \<in> set (ext_units ext) \<and> convcu \<in> set (ext_units ext)
     \<and> objects m cu = Some \<lparr>unit_class = GemmMainUnitTest,
          ctor_args = [GemmParamList (SHUFFLE_SIMT_PARAMS core @ SHUFFLE_VOLTA_PARAMS core
                         @ SHUFFLE_TURING_PARAMS core @ SHUFFLE_AMPERE_PARAMS core)],
          namespace = Some ''cumm.gemm.main''\<rparr>
     \<and> objects m convcu = Some \<lparr>unit_class = ConvMainUnitTest,
          ctor_args = [ConvParamList (IMPLGEMM_SIMT_PARAMS core @ IMPLGEMM_VOLTA_PARAMS core
                         @ IMPLGEMM_TURING_PARAMS core @ IMPLGEMM_AMPERE_PARAMS core)],
          namespace = Some ''cumm.conv.main''\<rparr>
     \<and> (\<forall>oid u ps. objects m oid = Some u \<and> GemmParamList ps \<in> set (ctor_args u) \<longrightarrow> oid = cu)
     \<and> (\<forall>oid u ps. objects m oid = Some u \<and> ConvParamList ps \<in> set (ctor_args u) \<longrightarrow> oid = convcu)"
proof -
  note o = run_objects(1) [OF assms]
  from run_objects(2) [OF assms] obtain std where
    e: "ext_modules args =
          [\<lparr>ext_units = [2, 3, 4, 5, 6, 7, 8, 9, 10, 11, 12, 0, 1],
             ext_name = ''spconv/core_cc'',
             ext_source_dir = path_join (file_resolved_parent w) ''spconv'',
             ext_std = std, ext_disable_pch = True, ext_verbose = True\<rparr>]"
    by blast
  have "ext_modules args = [hd (ext_modules args)]
     \<and> 0 \<in> set (ext_units (hd (ext_modules args)))
     \<and> 1 \<in> set (ext_units (hd (ext_modules args)))
     \<and> objects m 0 = Some \<lparr>unit_class = GemmMainUnitTest,
          ctor_args = [GemmParamList (SHUFFLE_SIMT_PARAMS core @ SHUFFLE_VOLTA_PARAMS core
                         @ SHUFFLE_TURING_PARAMS core @ SHUFFLE_AMPERE_PARAMS core)],
          namespace = Some ''cumm.gemm.main''\<rparr>
     \<and> objects m 1 = Some \<lparr>unit_class = ConvMainUnitTest,
          ctor_args = [ConvParamList (IMPLGEMM_SIMT_PARAMS core @ IMPLGEMM_VOLTA_PARAMS core
                         @ IMPLGEMM_TURING_PARAMS core @ IMPLGEMM_AMPERE_PARAMS core)],
          namespace = Some ''cumm.conv.main''\<rparr>
     \<and> (\<forall>oid u ps. objects m oid = Some u \<and> GemmParamList ps \<in> set (ctor_args u) \<longrightarrow> oid = 0)
     \<and> (\<forall>oid u ps. objects m oid = Some u \<and> ConvParamList ps \<in> set (ctor_args u) \<longrightarrow> oid = 1)"
    by (auto simp: o e all_shuffle_def all_imp_def split: if_splits)
  then show ?thesis by (intro exI)
qed

theorem C1_witness:
  "\<exists>args m ext. manifest example_core example_world = (Inr args, m)
     \<and> ext_modules args = [ext]
     \<and> map (\<lambda>oid. map_option ctor_args (objects m oid)) (ext_units ext) =
         [Some [UnitRef 0], Some [UnitRef 1], Some [UnitRef 2, UnitRef 3],
          Some [], Some [], Some [], Some [], Some [], Some [], Some [], Some [],
          Some [GemmParamList [1, 2, 3, 4]], Some [ConvParamList [5, 6, 7, 8, 9]]]"
proof -
  from example_run obtain args m where
    run: "manifest example_core example_world = (Inr args, m)" by blast
  from C1_catalogue_is_tier_concatenation [OF run] obtain ext where
    ext: "ext_modules args = [ext]" by blast
  with run_objects(2) [OF run] have u: "ext_units ext = [2, 3, 4, 5, 6, 7, 8, 9, 10, 11, 12, 0, 1]"
    by auto
  have "map (\<lambda>oid. map_option ctor_args (objects m oid)) (ext_units ext) =
         [Some [UnitRef 0], Some [UnitRef 1], Some [UnitRef 2, UnitRef 3],
          Some [], Some [], Some [], Some [], Some [], Some [], Some [], Some [],
          Some [GemmParamList [1, 2, 3, 4]], Some [ConvParamList [5, 6, 7, 8, 9]]]"
    by (simp add: u run_objects(1) [OF run] all_shuffle_def all_imp_def example_core_def)
  with run ext have "manifest example_core example_world = (Inr args, m)
     \<and> ext_modules args = [ext]
     \<and> map (\<lambda>oid. map_option ctor_args (objects m oid)) (ext_units ext) =
         [Some [UnitRef 0], Some [UnitRef 1], Some [UnitRef 2, UnitRef 3],
          Some [], Some [], Some [], Some [], Some [], Some [], Some [], Some [],
          Some [GemmParamList [1, 2, 3, 4]], Some [ConvParamList [5, 6, 7, 8, 9]]]"
    by (intro conjI)
  then show ?thesis by (intro exI)
qed

text \<open>
  C2. If CUMM_CUDA_VERSION is unset or empty, the run ends at once with the RuntimeError
  of the manifest, whatever the catalogue: no unit has been constructed, no extension
  defined, no file written and the module search path is untouched. There is no default
  configuration.
\<close>

theorem C2_unset_version_fails_first:
  assumes "environ w ''CUMM_CUDA_VERSION'' = None \<or> environ w ''CUMM_CUDA_VERSION'' = Some []"
  shows "fst (manifest core w) =
           Inl (RuntimeError ''CUMM_CUDA_VERSION must be set. e.g. export CUMM_CUDA_VERSION=11.8'')
     \<and> objects (snd (manifest core w)) = Map.empty
     \<and> next_oid (snd (manifest core w)) = 0
     \<and> extensions (snd (manifest core w)) = []
     \<and> files (snd (manifest core w)) = files w
     \<and> sys_path (snd (manifest core w)) = sys_path w"
  using manifest_unset [OF assms, of core]
  by (simp add: boot_def world.defs machine.defs)

theorem C2_witness:
  "fst (manifest example_core (world_with_version None)) =
           Inl (RuntimeError ''CUMM_CUDA_VERSION must be set. e.g. export CUMM_CUDA_VERSION=11.8'')
   \<and> fst (manifest example_core (world_with_version (Some []))) =
           Inl (RuntimeError ''CUMM_CUDA_VERSION must be set. e.g. export CUMM_CUDA_VERSION=11.8'')
   \<and> extensions (snd (manifest example_core (world_with_version None))) = []
   \<and> files (snd (manifest example_core (world_with_version (Some []))))
        ''/work/spconv/version.txt'' = Inr (''2.3.8'' @ [CHR 0x0A])"
proof -
  have unset: "environ (world_with_version None) ''CUMM_CUDA_VERSION'' = None
      \<or> environ (world_with_version None) ''CUMM_CUDA_VERSION'' = Some []"
    by (simp add: world_with_version_def)
  have empty: "environ (world_with_version (Some [])) ''CUMM_CUDA_VERSION'' = None
      \<or> environ (world_with_version (Some [])) ''CUMM_CUDA_VERSION'' = Some []"
    by (simp add: world_with_version_def)
  have f: "files (world_with_version (Some [])) ''/work/spconv/version.txt''
             = Inr (''2.3.8'' @ [CHR 0x0A])"
    by (simp add: world_with_version_def example_world_def)
  from C2_unset_version_fails_first [OF unset, of example_core]
    C2_unset_version_fails_first [OF empty, of example_core] f
  show ?thesis by simp
qed

text \<open>
  C3. Every run that reaches \<open>setup\<close> creates exactly one extension: the thirteen units
  (the two tuners, ConvGemmOps, SpconvOps, BoxOps, HashTable, CompileInfo, ExternalAllocator,
  PointCloudCompress, ExternalSpconvMatmul, InferenceOps and the kernel main units cu and
  convcu) are thirteen different objects, they are all the units the run constructed, and
  they are the units of the one PCCMExtension, whose module name is \<open>spconv/core_cc\<close> and
  which is the only extension constructed and the only one handed to \<open>setup\<close>.
\<close>

theorem C3_single_extension:
  assumes "manifest core w = (Inr args, m)"
  shows "\<exists>ext. ext_modules args = [ext] \<and> extensions m = [ext]
           \<and> ext_name ext = ''spconv/core_cc''
           \<and> length (ext_units ext) = 13 \<and> distinct (ext_units ext)
           \<and> dom (objects m) = set (ext_units ext)
           \<and> map (\<lambda>oid. map_option unit_class (objects m oid)) (ext_units ext) =
               [Some GemmTunerSimple, Some ConvTunerSimple, Some ConvGemmOps, Some SpconvOps,
                Some BoxOps, Some HashTable, Some CompileInfo, Some ExternalAllocator,
                Some PointCloudCompress, Some ExternalSpconvMatmul, Some InferenceOps,
                Some GemmMainUnitTest, Some ConvMainUnitTest]"
proof -
  note o = run_objects(1) [OF assms]
  from run_objects(2) [OF assms] obtain std where
    e: "ext_modules args =
          [\<lparr>ext_units = [2, 3, 4, 5, 6, 7, 8, 9, 10, 11, 12, 0, 1],
             ext_name = ''spconv/core_cc'',
             ext_source_dir = path_join (file_resolved_parent w) ''spconv'',
             ext_std = std, ext_disable_pch = True, ext_verbose = True\<rparr>]"
    by blast
  note x = run_objects(3) [OF assms]
  have "ext_modules args = [hd (ext_modules args)] \<and> extensions m = [hd (ext_modules args)]
           \<and> ext_name (hd (ext_modules args)) = ''spconv/core_cc''
           \<and> length (ext_units (hd (ext_modules args))) = 13
           \<and> distinct (ext_units (hd (ext_modules args)))
           \<and> dom (objects m) = set (ext_units (hd (ext_modules args)))
           \<and> map (\<lambda>oid. map_option unit_class (objects m oid)) (ext_units (hd (ext_modules args))) =
               [Some GemmTunerSimple, Some ConvTunerSimple, Some ConvGemmOps, Some SpconvOps,
                Some BoxOps, Some HashTable, Some CompileInfo, Some ExternalAllocator,
                Some PointCloudCompress, Some ExternalSpconvMatmul, Some InferenceOps,
                Some GemmMainUnitTest, Some ConvMainUnitTest]"
    by (auto simp: o e x)
  then show ?thesis by (intro exI)
qed

theorem C3_witness:
  "\<exists>args m. manifest example_core example_world = (Inr args, m)
     \<and> ext_modules args =
         [\<lparr>ext_units = [2, 3, 4, 5, 6, 7, 8, 9, 10, 11, 12, 0, 1],
           ext_name = ''spconv/core_cc'', ext_source_dir = ''/work/spconv/spconv'',
           ext_std = ''c++17'', ext_disable_pch = True, ext_verbose = True\<rparr>]
     \<and> extensions m = ext_modules args
     \<and> dom (objects m) = {0, 1, 2, 3, 4, 5, 6, 7, 8, 9, 10, 11, 12}"
proof -
  from example_run obtain args m where
    run: "manifest example_core example_world = (Inr args, m)" by blast
  from C3_single_extension [OF run] obtain ext where
    ext: "ext_modules args = [ext]" "extensions m = [ext]" "dom (objects m) = set (ext_units ext)"
    by blast
  from run_fields(1) [OF run] example_world_inputs(1) select_std_11_8
  have std: "map ext_std (ext_modules args) = [''c++17'']" by auto
  from run_objects(2) [OF run] std
  have em: "ext_modules args =
         [\<lparr>ext_units = [2, 3, 4, 5, 6, 7, 8, 9, 10, 11, 12, 0, 1],
           ext_name = ''spconv/core_cc'', ext_source_dir = ''/work/spconv/spconv'',
           ext_std = ''c++17'', ext_disable_pch = True, ext_verbose = True\<rparr>]"
    by (auto simp: example_world_def path_join_def)
  from ext em have d: "dom (objects m) = {0, 1, 2, 3, 4, 5, 6, 7, 8, 9, 10, 11, 12}"
    by auto
  from run em ext d have "manifest example_core example_world = (Inr args, m)
     \<and> ext_modules args =
         [\<lparr>ext_units = [2, 3, 4, 5, 6, 7, 8, 9, 10, 11, 12, 0, 1],
           ext_name = ''spconv/core_cc'', ext_source_dir = ''/work/spconv/spconv'',
           ext_std = ''c++17'', ext_disable_pch = True, ext_verbose = True\<rparr>]
     \<and> extensions m = ext_modules args
     \<and> dom (objects m) = {0, 1, 2, 3, 4, 5, 6, 7, 8, 9, 10, 11, 12}"
    by simp
  then show ?thesis by (intro exI)
qed

text \<open>
  C5. In every run that reaches \<open>setup\<close> there is exactly one GemmTunerSimple and exactly
  one ConvTunerSimple. The GEMM tuner is constructed from one argument, the unit cu, which
  is the GemmMainUnitTest built over the complete catalogue \<open>all_shuffle\<close>; the Conv tuner is
  constructed from one argument, the unit convcu, which is the ConvMainUnitTest built over
  the complete catalogue \<open>all_imp\<close>. Every variant of each of the four tier lists of a
  primitive is in the catalogue of that primitive's tuner, and nothing else is.
\<close>

theorem C5_tuners_see_full_catalogue:
  assumes "manifest core w = (Inr args, m)"
  shows "\<exists>ext gemmtuner convtuner cu convcu. ext_modules args = [ext]
     \<and> {gemmtuner, convtuner, cu, convcu} \<subseteq> set (ext_units ext)
     \<and> objects m gemmtuner = Some \<lparr>unit_class = GemmTunerSimple, ctor_args = [UnitRef cu],
          namespace = Some ''csrc.sparse.convops.gemmops''\<rparr>
     \<and> objects m cu = Some \<lparr>unit_class = GemmMainUnitTest,
          ctor_args = [GemmParamList (all_shuffle core)], namespace = Some ''cumm.gemm.main''\<rparr>
     \<and> objects m convtuner = Some \<lparr>unit_class = ConvTunerSimple, ctor_args = [UnitRef convcu],
          namespace = Some ''csrc.sparse.convops.convops''\<rparr>
     \<and> objects m convcu = Some \<lparr>unit_class = ConvMainUnitTest,
          ctor_args = [ConvParamList (all_imp core)], namespace = Some ''cumm.conv.main''\<rparr>
     \<and> (\<forall>oid u. objects m oid = Some u \<and> unit_class u = GemmTunerSimple \<longrightarrow> oid = gemmtuner)
     \<and> (\<forall>oid u. objects m oid = Some u \<and> unit_class u = ConvTunerSimple \<longrightarrow> oid = convtuner)
     \<and> set (all_shuffle core) =
          set (SHUFFLE_SIMT_PARAMS core) \<union> set (SHUFFLE_VOLTA_PARAMS core)
          \<union> set (SHUFFLE_TURING_PARAMS core) \<union> set (SHUFFLE_AMPERE_PARAMS core)
     \<and> set (all_imp core) =
          set (IMPLGEMM_SIMT_PARAMS core) \<union> set (IMPLGEMM_VOLTA_PARAMS core)
          \<union> set (IMPLGEMM_TURING_PARAMS core) \<union> set (IMPLGEMM_AMPERE_PARAMS core)"
proof -
  note o = run_objects(1) [OF assms]
  from run_objects(2) [OF assms] obtain std where
    e: "ext_modules args =
          [\<lparr>ext_units = [2, 3, 4, 5, 6, 7, 8, 9, 10, 11, 12, 0, 1],
             ext_name = ''spconv/core_cc'',
             ext_source_dir = path_join (file_resolved_parent w) ''spconv'',
             ext_std = std, ext_disable_pch = True, ext_verbose = True\<rparr>]"
    by blast
  have "ext_modules args = [hd (ext_modules args)]
     \<and> {2, 3, 0, 1} \<subseteq> set (ext_units (hd (ext_modules args)))
     \<and> objects m 2 = Some \<lparr>unit_class = GemmTunerSimple, ctor_args = [UnitRef 0],
          namespace = Some ''csrc.sparse.convops.gemmops''\<rparr>
     \<and> objects m 0 = Some \<lparr>unit_class = GemmMainUnitTest,
          ctor_args = [GemmParamList (all_shuffle core)], namespace = Some ''cumm.gemm.main''\<rparr>
     \<and> objects m 3 = Some \<lparr>unit_class = ConvTunerSimple, ctor_args = [UnitRef 1],
          namespace = Some ''csrc.sparse.convops.convops''\<rparr>
     \<and> objects m 1 = Some \<lparr>unit_class = ConvMainUnitTest,
          ctor_args = [ConvParamList (all_imp core)], namespace = Some ''cumm.conv.main''\<rparr>
     \<and> (\<forall>oid u. objects m oid = Some u \<and> unit_class u = GemmTunerSimple \<longrightarrow> oid = 2)
     \<and> (\<forall>oid u. objects m oid = Some u \<and> unit_class u = ConvTunerSimple \<longrightarrow> oid = 3)
     \<and> set (all_shuffle core) =
          set (SHUFFLE_SIMT_PARAMS core) \<union> set (SHUFFLE_VOLTA_PARAMS core)
          \<union> set (SHUFFLE_TURING_PARAMS core) \<union> set (SHUFFLE_AMPERE_PARAMS core)
     \<and> set (all_imp core) =
          set (IMPLGEMM_SIMT_PARAMS core) \<union> set (IMPLGEMM_VOLTA_PARAMS core)
          \<union> set (IMPLGEMM_TURING_PARAMS core) \<union> set (IMPLGEMM_AMPERE_PARAMS core)"
    by (auto simp: o e all_shuffle_def all_imp_def split: if_splits)
  then show ?thesis by (intro exI)
qed

theorem C5_witness:
  "\<exists>args m. manifest example_core example_world = (Inr args, m)
     \<and> map_option ctor_args (objects m 2) = Some [UnitRef 0]
     \<and> map_option ctor_args (objects m 0) = Some [GemmParamList [1, 2, 3, 4]]
     \<and> map_option ctor_args (objects m 3) = Some [UnitRef 1]
     \<and> map_option ctor_args (objects m 1) = Some [ConvParamList [5, 6, 7, 8, 9]]"
proof -
  from example_run obtain args m where
    run: "manifest example_core example_world = (Inr args, m)" by blast
  from C5_tuners_see_full_catalogue [OF run] obtain gemmtuner cu where
    t: "objects m gemmtuner = Some \<lparr>unit_class = GemmTunerSimple, ctor_args = [UnitRef cu],
          namespace = Some ''csrc.sparse.convops.gemmops''\<rparr>"
    by blast
  have "map_option ctor_args (objects m 2) = Some [UnitRef 0]
     \<and> map_option ctor_args (objects m 0) = Some [GemmParamList [1, 2, 3, 4]]
     \<and> map_option ctor_args (objects m 3) = Some [UnitRef 1]
     \<and> map_option ctor_args (objects m 1) = Some [ConvParamList [5, 6, 7, 8, 9]]"
    by (simp add: run_objects(1) [OF run] all_shuffle_def all_imp_def example_core_def)
  with run t have "manifest example_core example_world = (Inr args, m)
     \<and> map_option ctor_args (objects m 2) = Some [UnitRef 0]
     \<and> map_option ctor_args (objects m 0) = Some [GemmParamList [1, 2, 3, 4]]
     \<and> map_option ctor_args (objects m 3) = Some [UnitRef 1]
     \<and> map_option ctor_args (objects m 1) = Some [ConvParamList [5, 6, 7, 8, 9]]"
    by simp
  then show ?thesis by (intro exI)
qed

text \<open>
  C4, as stated, fails: the same value of CUMM_CUDA_VERSION and the same contents of
  \<open>version.txt\<close> do not make two runs construct the same units. In the example checkout the
  run constructs thirteen units and hands them to one extension; in the same checkout
  without the package directory \<open>spconv\<close> the unguarded \<open>open(version_path, 'w')\<close> raises
  FileNotFoundError before any unit is constructed, and no extension is defined.
\<close>

theorem C4_counterexample:
  "environ example_world ''CUMM_CUDA_VERSION''
     = environ world_without_package_dir ''CUMM_CUDA_VERSION''
   \<and> files example_world (path_join (cwd example_world) ''version.txt'')
       = files world_without_package_dir (path_join (cwd world_without_package_dir) ''version.txt'')
   \<and> files example_world (path_join (cwd example_world) ''version.txt'')
       = Inr (''2.3.8'' @ [CHR 0x0A])
   \<and> dom (objects (snd (manifest example_core example_world)))
       = {0, 1, 2, 3, 4, 5, 6, 7, 8, 9, 10, 11, 12}
   \<and> map ext_units (extensions (snd (manifest example_core example_world)))
       = [[2, 3, 4, 5, 6, 7, 8, 9, 10, 11, 12, 0, 1]]
   \<and> fst (manifest example_core world_without_package_dir)
       = Inl (FileNotFoundError ''/work/spconv/spconv/__version__.py'')
   \<and> dom (objects (snd (manifest example_core world_without_package_dir))) = {}
   \<and> extensions (snd (manifest example_core world_without_package_dir)) = []"
proof -
  have e: "environ example_world ''CUMM_CUDA_VERSION''
     = environ world_without_package_dir ''CUMM_CUDA_VERSION''"
    by (simp add: world_without_package_dir_def)
  have f: "files example_world (path_join (cwd example_world) ''version.txt'')
       = files world_without_package_dir (path_join (cwd world_without_package_dir) ''version.txt'')"
    by (simp add: world_without_package_dir_def)
  have f': "files example_world (path_join (cwd example_world) ''version.txt'')
       = Inr (''2.3.8'' @ [CHR 0x0A])"
    by (simp add: example_world_def path_join_def)
  note r = manifest_run [OF example_world_inputs(1) _ example_world_inputs(2,3,4) select_std_11_8,
      of example_core]
  have d: "dom (objects (snd (manifest example_core example_world)))
       = {0, 1, 2, 3, 4, 5, 6, 7, 8, 9, 10, 11, 12}"
    using r by auto
  have x: "map ext_units (extensions (snd (manifest example_core example_world)))
       = [[2, 3, 4, 5, 6, 7, 8, 9, 10, 11, 12, 0, 1]]"
    using r by simp
  have i: "environ world_without_package_dir ''CUMM_CUDA_VERSION'' = Some ''11.8''"
      "read_long_description (files world_without_package_dir) (here world_without_package_dir)
         = Inr ''spatial sparse convolution''"
      "read_version (files world_without_package_dir) (cwd world_without_package_dir)
         = Inr ''2.3.8''"
    using example_world_inputs(1,2,3) by (simp_all add: world_without_package_dir_def)
  have w: "write_error world_without_package_dir (version_path (here world_without_package_dir))
         = Some (FileNotFoundError ''/work/spconv/spconv/__version__.py'')"
    by (simp add: world_without_package_dir_def example_world_def version_path_def
          path_join_def NAME_def)
  note b = manifest_write_error [OF i(1) _ i(2,3) w, of example_core]
  have o: "fst (manifest example_core world_without_package_dir)
       = Inl (FileNotFoundError ''/work/spconv/spconv/__version__.py'')"
    using b by simp
  have n: "dom (objects (snd (manifest example_core world_without_package_dir))) = {}"
    using b by (simp add: boot_def world.defs machine.defs)
  have y: "extensions (snd (manifest example_core world_without_package_dir)) = []"
    using b by (simp add: boot_def world.defs machine.defs)
  from e f f' d x o n y show ?thesis by (intro conjI)
qed

text \<open>
  C4, amended. Composition is deterministic once the two runs get equally far. Take two
  runs over the same catalogue whose worlds agree on the value of CUMM_CUDA_VERSION and on
  what reading \<open>version.txt\<close> gives, and may differ in everything else (the contents of the
  README, the directories, the rest of the environment).

  If reading the README ends the same way in both (it is read or missing in both, or the
  same exception escapes in both) and so does writing \<open>__version__.py\<close>, then the two runs
  end the same way, construct the same units under the same object identifiers, and hand
  the same unit list, module name and C++ standard to the extension.

  If both runs reach \<open>setup\<close>, the same holds with no condition on the files.

  In a run that reaches \<open>setup\<close> the namespaces of the units of the extension are, in
  order, \<open>csrc.sparse.convops.gemmops\<close>, \<open>csrc.sparse.convops.convops\<close>,
  \<open>csrc.sparse.convops.spops\<close>, none for the eight units the manifest assigns none to,
  \<open>cumm.gemm.main\<close> and \<open>cumm.conv.main\<close>.
\<close>

theorem C4_composition_is_deterministic:
  assumes env: "environ w1 ''CUMM_CUDA_VERSION'' = environ w2 ''CUMM_CUDA_VERSION''"
    and ver: "files w1 (path_join (cwd w1) ''version.txt'')
                = files w2 (path_join (cwd w2) ''version.txt'')"
  shows "(map_sum id (\<lambda>d. ()) (read_long_description (files w1) (here w1))
            = map_sum id (\<lambda>d. ()) (read_long_description (files w2) (here w2))
          \<and> write_error w1 (version_path (here w1)) = write_error w2 (version_path (here w2))
          \<longrightarrow>
            objects (snd (manifest core w1)) = objects (snd (manifest core w2))
          \<and> next_oid (snd (manifest core w1)) = next_oid (snd (manifest core w2))
          \<and> map ext_units (extensions (snd (manifest core w1)))
              = map ext_units (extensions (snd (manifest core w2)))
          \<and> map_sum id (\<lambda>a. map (\<lambda>e. (ext_units e, ext_name e, ext_std e)) (ext_modules a))
                (fst (manifest core w1))
              = map_sum id (\<lambda>a. map (\<lambda>e. (ext_units e, ext_name e, ext_std e)) (ext_modules a))
                (fst (manifest core w2)))
     \<and> (\<forall>args1 m1 args2 m2.
           manifest core w1 = (Inr args1, m1) \<and> manifest core w2 = (Inr args2, m2) \<longrightarrow>
             objects m1 = objects m2
           \<and> next_oid m1 = next_oid m2
           \<and> map ext_units (extensions m1) = map ext_units (extensions m2)
           \<and> map (\<lambda>e. (ext_units e, ext_name e, ext_std e)) (ext_modules args1)
               = map (\<lambda>e. (ext_units e, ext_name e, ext_std e)) (ext_modules args2))
     \<and> (\<forall>args m. manifest core w1 = (Inr args, m) \<longrightarrow>
           (\<exists>ext. ext_modules args = [ext]
              \<and> map (\<lambda>oid. Option.bind (objects m oid) namespace) (ext_units ext) =
                  [Some ''csrc.sparse.convops.gemmops'', Some ''csrc.sparse.convops.convops'',
                   Some ''csrc.sparse.convops.spops'',
                   None, None, None, None, None, None, None, None,
                   Some ''cumm.gemm.main'', Some ''cumm.conv.main'']))"
proof -
  have ns: "\<forall>args m. manifest core w1 = (Inr args, m) \<longrightarrow>
           (\<exists>ext. ext_modules args = [ext]
              \<and> map (\<lambda>oid. Option.bind (objects m oid) namespace) (ext_units ext) =
                  [Some ''csrc.sparse.convops.gemmops'', Some ''csrc.sparse.convops.convops'',
                   Some ''csrc.sparse.convops.spops'',
                   None, None, None, None, None, None, None, None,
                   Some ''cumm.gemm.main'', Some ''cumm.conv.main''])"
  proof (intro allI impI)
    fix args m assume run: "manifest core w1 = (Inr args, m)"
    from manifest_Inr_conditions [OF run] obtain v ld vn std where
      c: "environ w1 ''CUMM_CUDA_VERSION'' = Some v" "v \<noteq> []"
         "read_long_description (files w1) (here w1) = Inr ld"
         "read_version (files w1) (cwd w1) = Inr vn"
         "write_error w1 (version_path (here w1)) = None"
         "select_std v = Inr std"
      by blast
    from run manifest_run [OF c, of core]
    show "\<exists>ext. ext_modules args = [ext]
              \<and> map (\<lambda>oid. Option.bind (objects m oid) namespace) (ext_units ext) =
                  [Some ''csrc.sparse.convops.gemmops'', Some ''csrc.sparse.convops.convops'',
                   Some ''csrc.sparse.convops.spops'',
                   None, None, None, None, None, None, None, None,
                   Some ''cumm.gemm.main'', Some ''cumm.conv.main'']"
      by auto
  qed
  have both: "\<forall>args1 m1 args2 m2.
           manifest core w1 = (Inr args1, m1) \<and> manifest core w2 = (Inr args2, m2) \<longrightarrow>
             objects m1 = objects m2
           \<and> next_oid m1 = next_oid m2
           \<and> map ext_units (extensions m1) = map ext_units (extensions m2)
           \<and> map (\<lambda>e. (ext_units e, ext_name e, ext_std e)) (ext_modules args1)
               = map (\<lambda>e. (ext_units e, ext_name e, ext_std e)) (ext_modules args2)"
  proof (intro allI impI, elim conjE)
    fix args1 m1 args2 m2
    assume run1: "manifest core w1 = (Inr args1, m1)"
      and run2: "manifest core w2 = (Inr args2, m2)"
    from manifest_Inr_conditions [OF run1] obtain v ld vn std where
      c: "environ w1 ''CUMM_CUDA_VERSION'' = Some v" "v \<noteq> []"
         "read_long_description (files w1) (here w1) = Inr ld"
         "read_version (files w1) (cwd w1) = Inr vn"
         "write_error w1 (version_path (here w1)) = None"
         "select_std v = Inr std"
      by blast
    from manifest_Inr_conditions [OF run2] obtain v' ld' vn' std' where
      c': "environ w2 ''CUMM_CUDA_VERSION'' = Some v'" "v' \<noteq> []"
         "read_long_description (files w2) (here w2) = Inr ld'"
         "read_version (files w2) (cwd w2) = Inr vn'"
         "write_error w2 (version_path (here w2)) = None"
         "select_std v' = Inr std'"
      by blast
    from env c(1) c'(1) have "v' = v" by simp
    with c(6) c'(6) have s: "std' = std" by simp
    from run1 manifest_run [OF c, of core] run2 manifest_run [OF c', of core] s
    show "objects m1 = objects m2
           \<and> next_oid m1 = next_oid m2
           \<and> map ext_units (extensions m1) = map ext_units (extensions m2)
           \<and> map (\<lambda>e. (ext_units e, ext_name e, ext_std e)) (ext_modules args1)
               = map (\<lambda>e. (ext_units e, ext_name e, ext_std e)) (ext_modules args2)"
      by auto
  qed
  have same: "map_sum id (\<lambda>d. ()) (read_long_description (files w1) (here w1))
            = map_sum id (\<lambda>d. ()) (read_long_description (files w2) (here w2))
          \<and> write_error w1 (version_path (here w1)) = write_error w2 (version_path (here w2))
          \<longrightarrow>
            objects (snd (manifest core w1)) = objects (snd (manifest core w2))
          \<and> next_oid (snd (manifest core w1)) = next_oid (snd (manifest core w2))
          \<and> map ext_units (extensions (snd (manifest core w1)))
              = map ext_units (extensions (snd (manifest core w2)))
          \<and> map_sum id (\<lambda>a. map (\<lambda>e. (ext_units e, ext_name e, ext_std e)) (ext_modules a))
                (fst (manifest core w1))
              = map_sum id (\<lambda>a. map (\<lambda>e. (ext_units e, ext_name e, ext_std e)) (ext_modules a))
                (fst (manifest core w2))"
    (is "?agree \<longrightarrow> ?same")
  proof
    assume ?agree
    then have rd: "map_sum id (\<lambda>d. ()) (read_long_description (files w1) (here w1))
            = map_sum id (\<lambda>d. ()) (read_long_description (files w2) (here w2))"
      and wr: "write_error w1 (version_path (here w1)) = write_error w2 (version_path (here w2))"
      by simp_all
    from ver have rv: "read_version (files w1) (cwd w1) = read_version (files w2) (cwd w2)"
      by (simp add: read_version_def read_text_def)
    show ?same
    proof (cases "environ w1 ''CUMM_CUDA_VERSION'' = None
                  \<or> environ w1 ''CUMM_CUDA_VERSION'' = Some []")
      case True
      then have "environ w2 ''CUMM_CUDA_VERSION'' = None
                 \<or> environ w2 ''CUMM_CUDA_VERSION'' = Some []"
        using env by simp
      from manifest_unset [OF True, of core] manifest_unset [OF this, of core]
      show ?thesis by (simp add: boot_def world.defs machine.defs)
    next
      case False
      then obtain v where v: "environ w1 ''CUMM_CUDA_VERSION'' = Some v" "v \<noteq> []" by auto
      then have v2: "environ w2 ''CUMM_CUDA_VERSION'' = Some v" using env by simp
      show ?thesis
      proof (cases "read_long_description (files w1) (here w1)")
        case (Inl e)
        with rd have "read_long_description (files w2) (here w2) = Inl e"
          by (cases "read_long_description (files w2) (here w2)") simp_all
        from manifest_readme_error [OF v Inl, of core]
          manifest_readme_error [OF v2 v(2) this, of core]
        show ?thesis by (simp add: boot_def world.defs machine.defs)
      next
        case (Inr ld)
        with rd obtain ld' where ld': "read_long_description (files w2) (here w2) = Inr ld'"
          by (cases "read_long_description (files w2) (here w2)") simp_all
        show ?thesis
        proof (cases "read_version (files w1) (cwd w1)")
          case (Inl e)
          then have "read_version (files w2) (cwd w2) = Inl e" using rv by simp
          from manifest_version_error [OF v Inr Inl, of core]
            manifest_version_error [OF v2 v(2) ld' this, of core]
          show ?thesis by (simp add: boot_def world.defs machine.defs)
        next
          case (Inr vn)
          note vn = this
          then have vn2: "read_version (files w2) (cwd w2) = Inr vn" using rv by simp
          show ?thesis
          proof (cases "write_error w1 (version_path (here w1))")
            case (Some e)
            then have "write_error w2 (version_path (here w2)) = Some e" using wr by simp
            from manifest_write_error [OF v \<open>read_long_description (files w1) (here w1) = Inr ld\<close>
                vn Some, of core]
              manifest_write_error [OF v2 v(2) ld' vn2 this, of core]
            show ?thesis by (simp add: boot_def world.defs machine.defs)
          next
            case None
            then have n2: "write_error w2 (version_path (here w2)) = None" using wr by simp
            note l1 = \<open>read_long_description (files w1) (here w1) = Inr ld\<close>
            show ?thesis
            proof (cases "select_std v")
              case (Inl e)
              from manifest_bad_version [OF v l1 vn None Inl, of core]
                manifest_bad_version [OF v2 v(2) ld' vn2 n2 Inl, of core]
              show ?thesis by (simp add: boot_def world.defs machine.defs)
            next
              case (Inr std)
              from manifest_run [OF v l1 vn None Inr, of core]
                manifest_run [OF v2 v(2) ld' vn2 n2 Inr, of core]
              show ?thesis by (simp add: boot_def world.defs machine.defs)
            qed
          qed
        qed
      qed
    qed
  qed
  from same both ns show ?thesis by (intro conjI)
qed

theorem C4_witness:
  "environ example_world ''CUMM_CUDA_VERSION'' = environ world_elsewhere ''CUMM_CUDA_VERSION''
   \<and> files example_world (path_join (cwd example_world) ''version.txt'')
       = files world_elsewhere (path_join (cwd world_elsewhere) ''version.txt'')
   \<and> read_long_description (files example_world) (here example_world)
       = Inr ''spatial sparse convolution''
   \<and> read_long_description (files world_elsewhere) (here world_elsewhere)
       = Inr ([CHR 0x0A] @ ''readme'')
   \<and> write_error example_world (version_path (here example_world))
       = write_error world_elsewhere (version_path (here world_elsewhere))
   \<and> objects (snd (manifest example_core example_world))
       = objects (snd (manifest example_core world_elsewhere))
   \<and> map ext_units (extensions (snd (manifest example_core example_world)))
       = map ext_units (extensions (snd (manifest example_core world_elsewhere)))
   \<and> map ext_units (extensions (snd (manifest example_core example_world)))
       = [[2, 3, 4, 5, 6, 7, 8, 9, 10, 11, 12, 0, 1]]
   \<and> (\<exists>args m. manifest example_core example_world = (Inr args, m))
   \<and> (\<exists>args m. manifest example_core world_elsewhere = (Inr args, m))"
proof -
  have e: "environ example_world ''CUMM_CUDA_VERSION'' = environ world_elsewhere ''CUMM_CUDA_VERSION''"
    by (simp add: example_world_def world_elsewhere_def)
  have f: "files example_world (path_join (cwd example_world) ''version.txt'')
       = files world_elsewhere (path_join (cwd world_elsewhere) ''version.txt'')"
    by (simp add: example_world_def world_elsewhere_def path_join_def)
  note r1 = example_world_inputs(2)
  have i: "environ world_elsewhere ''CUMM_CUDA_VERSION'' = Some ''11.8''"
      "read_long_description (files world_elsewhere) (here world_elsewhere)
         = Inr ([CHR 0x0A] @ ''readme'')"
      "read_version (files world_elsewhere) (cwd world_elsewhere) = Inr ''2.3.8''"
      "write_error world_elsewhere (version_path (here world_elsewhere)) = None"
    by (simp_all add: world_elsewhere_def path_join_def read_long_description_def
          read_version_def read_text_def py_strip_def is_space_def)
  from example_world_inputs(4) i(4)
  have wr: "write_error example_world (version_path (here example_world))
       = write_error world_elsewhere (version_path (here world_elsewhere))"
    by simp
  from r1 i(2)
  have rd: "map_sum id (\<lambda>d. ()) (read_long_description (files example_world) (here example_world))
            = map_sum id (\<lambda>d. ())
                (read_long_description (files world_elsewhere) (here world_elsewhere))"
    by simp
  note t = C4_composition_is_deterministic [OF e f, of example_core]
  from t have "map_sum id (\<lambda>d. ()) (read_long_description (files example_world) (here example_world))
            = map_sum id (\<lambda>d. ())
                (read_long_description (files world_elsewhere) (here world_elsewhere))
          \<and> write_error example_world (version_path (here example_world))
              = write_error world_elsewhere (version_path (here world_elsewhere))
          \<longrightarrow>
            objects (snd (manifest example_core example_world))
              = objects (snd (manifest example_core world_elsewhere))
          \<and> next_oid (snd (manifest example_core example_world))
              = next_oid (snd (manifest example_core world_elsewhere))
          \<and> map ext_units (extensions (snd (manifest example_core example_world)))
              = map ext_units (extensions (snd (manifest example_core world_elsewhere)))
          \<and> map_sum id (\<lambda>a. map (\<lambda>e. (ext_units e, ext_name e, ext_std e)) (ext_modules a))
                (fst (manifest example_core example_world))
              = map_sum id (\<lambda>a. map (\<lambda>e. (ext_units e, ext_name e, ext_std e)) (ext_modules a))
                (fst (manifest example_core world_elsewhere))"
    by (rule conjunct1)
  with rd wr have o: "objects (snd (manifest example_core example_world))
              = objects (snd (manifest example_core world_elsewhere))"
    and u: "map ext_units (extensions (snd (manifest example_core example_world)))
              = map ext_units (extensions (snd (manifest example_core world_elsewhere)))"
    by simp_all
  have x: "map ext_units (extensions (snd (manifest example_core example_world)))
       = [[2, 3, 4, 5, 6, 7, 8, 9, 10, 11, 12, 0, 1]]"
    using manifest_run [OF example_world_inputs(1) _ example_world_inputs(2,3,4) select_std_11_8,
        of example_core]
    by simp
  have y: "\<exists>args m. manifest example_core world_elsewhere = (Inr args, m)"
    using manifest_run [OF i(1) _ i(2,3,4) select_std_11_8, of example_core] by simp
  from e f r1 i(2) wr o u x example_run y show ?thesis by (intro conjI)
qed

text \<open>
  C6. In every run that reaches \<open>setup\<close> the only ConvGemmOps unit is built from the two
  tuners and carries the namespace \<open>csrc.sparse.convops.spops\<close>; its constituents carry
  \<open>csrc.sparse.convops.gemmops\<close> and \<open>csrc.sparse.convops.convops\<close>. Read as dotted paths,
  all three namespaces lie under the scope \<open>csrc.sparse.convops\<close>. The namespace of the
  composite is the same in every other run that reaches \<open>setup\<close>, whatever its world and
  catalogue.
\<close>

theorem C6_composite_namespace_scope:
  assumes "manifest core w = (Inr args, m)"
  shows "\<exists>convops gemmtuner convtuner.
       objects m convops = Some \<lparr>unit_class = ConvGemmOps,
          ctor_args = [UnitRef gemmtuner, UnitRef convtuner],
          namespace = Some ''csrc.sparse.convops.spops''\<rparr>
     \<and> map_option unit_class (objects m gemmtuner) = Some GemmTunerSimple
     \<and> Option.bind (objects m gemmtuner) namespace = Some ''csrc.sparse.convops.gemmops''
     \<and> map_option unit_class (objects m convtuner) = Some ConvTunerSimple
     \<and> Option.bind (objects m convtuner) namespace = Some ''csrc.sparse.convops.convops''
     \<and> (\<forall>oid u. objects m oid = Some u \<and> unit_class u = ConvGemmOps \<longrightarrow> oid = convops)
     \<and> (\<forall>args' m'. manifest core' w' = (Inr args', m') \<longrightarrow>
           Option.bind (objects m' convops) namespace = Some ''csrc.sparse.convops.spops'')
     \<and> prefix (str_split CHR ''.'' ''csrc.sparse.convops'')
               (str_split CHR ''.'' ''csrc.sparse.convops.spops'')
     \<and> prefix (str_split CHR ''.'' ''csrc.sparse.convops'')
               (str_split CHR ''.'' ''csrc.sparse.convops.gemmops'')
     \<and> prefix (str_split CHR ''.'' ''csrc.sparse.convops'')
               (str_split CHR ''.'' ''csrc.sparse.convops.convops'')"
proof -
  note o = run_objects(1) [OF assms]
  have other: "\<forall>args' m'. manifest core' w' = (Inr args', m') \<longrightarrow>
           Option.bind (objects m' 4) namespace = Some ''csrc.sparse.convops.spops''"
  proof (intro allI impI)
    fix args' m' assume run': "manifest core' w' = (Inr args', m')"
    show "Option.bind (objects m' 4) namespace = Some ''csrc.sparse.convops.spops''"
      by (simp add: run_objects(1) [OF run'])
  qed
  have scope: "prefix (str_split CHR ''.'' ''csrc.sparse.convops'')
               (str_split CHR ''.'' ''csrc.sparse.convops.spops'')"
     "prefix (str_split CHR ''.'' ''csrc.sparse.convops'')
               (str_split CHR ''.'' ''csrc.sparse.convops.gemmops'')"
     "prefix (str_split CHR ''.'' ''csrc.sparse.convops'')
               (str_split CHR ''.'' ''csrc.sparse.convops.convops'')"
    by simp_all
  have h1: "objects m 4 = Some \<lparr>unit_class = ConvGemmOps,
          ctor_args = [UnitRef 2, UnitRef 3],
          namespace = Some ''csrc.sparse.convops.spops''\<rparr>"
    and h2: "map_option unit_class (objects m 2) = Some GemmTunerSimple"
    and h3: "Option.bind (objects m 2) namespace = Some ''csrc.sparse.convops.gemmops''"
    and h4: "map_option unit_class (objects m 3) = Some ConvTunerSimple"
    and h5: "Option.bind (objects m 3) namespace = Some ''csrc.sparse.convops.convops''"
    by (simp_all add: o)
  have h6: "\<forall>oid u. objects m oid = Some u \<and> unit_class u = ConvGemmOps \<longrightarrow> oid = 4"
    by (auto simp: o split: if_splits)
  from h1 h2 h3 h4 h5 h6 other scope
  have "objects m 4 = Some \<lparr>unit_class = ConvGemmOps,
          ctor_args = [UnitRef 2, UnitRef 3],
          namespace = Some ''csrc.sparse.convops.spops''\<rparr>
     \<and> map_option unit_class (objects m 2) = Some GemmTunerSimple
     \<and> Option.bind (objects m 2) namespace = Some ''csrc.sparse.convops.gemmops''
     \<and> map_option unit_class (objects m 3) = Some ConvTunerSimple
     \<and> Option.bind (objects m 3) namespace = Some ''csrc.sparse.convops.convops''
     \<and> (\<forall>oid u. objects m oid = Some u \<and> unit_class u = ConvGemmOps \<longrightarrow> oid = 4)
     \<and> (\<forall>args' m'. manifest core' w' = (Inr args', m') \<longrightarrow>
           Option.bind (objects m' 4) namespace = Some ''csrc.sparse.convops.spops'')
     \<and> prefix (str_split CHR ''.'' ''csrc.sparse.convops'')
               (str_split CHR ''.'' ''csrc.sparse.convops.spops'')
     \<and> prefix (str_split CHR ''.'' ''csrc.sparse.convops'')
               (str_split CHR ''.'' ''csrc.sparse.convops.gemmops'')
     \<and> prefix (str_split CHR ''.'' ''csrc.sparse.convops'')
               (str_split CHR ''.'' ''csrc.sparse.convops.convops'')"
    by (intro conjI)
  then show ?thesis by (intro exI)
qed

theorem C6_witness:
  "\<exists>args m. manifest example_core example_world = (Inr args, m)
     \<and> Option.bind (objects m 4) namespace = Some ''csrc.sparse.convops.spops''
     \<and> map_option ctor_args (objects m 4) = Some [UnitRef 2, UnitRef 3]
     \<and> str_split CHR ''.'' ''csrc.sparse.convops.spops'' = [''csrc'', ''sparse'', ''convops'', ''spops'']"
proof -
  from example_run obtain args m where
    run: "manifest example_core example_world = (Inr args, m)" by blast
  from C6_composite_namespace_scope [OF run, of example_core example_world]
  obtain convops where
    "\<forall>args' m'. manifest example_core example_world = (Inr args', m') \<longrightarrow>
           Option.bind (objects m' convops) namespace = Some ''csrc.sparse.convops.spops''"
    by blast
  have "Option.bind (objects m 4) namespace = Some ''csrc.sparse.convops.spops''
     \<and> map_option ctor_args (objects m 4) = Some [UnitRef 2, UnitRef 3]
     \<and> str_split CHR ''.'' ''csrc.sparse.convops.spops'' = [''csrc'', ''sparse'', ''convops'', ''spops'']"
    by (simp add: run_objects(1) [OF run])
  with run have "manifest example_core example_world = (Inr args, m)
     \<and> Option.bind (objects m 4) namespace = Some ''csrc.sparse.convops.spops''
     \<and> map_option ctor_args (objects m 4) = Some [UnitRef 2, UnitRef 3]
     \<and> str_split CHR ''.'' ''csrc.sparse.convops.spops'' = [''csrc'', ''sparse'', ''convops'', ''spops'']"
    by simp
  then show ?thesis by (intro exI)
qed

text \<open>
  C8. For every non-empty value \<open>v\<close> of CUMM_CUDA_VERSION the release name is \<open>spconv-cu\<close>
  followed by \<open>v\<close> with every dot removed, and \<open>deps\<close> is the one requirement
  \<open>cumm-cu<v without dots>>=0.7.11, <1.0.0\<close>. In a run that reaches \<open>setup\<close> this is the
  name passed to it, and the requirements passed are the five fixed ones followed by that
  one; the bare \<open>cumm\<close> is not among them.
\<close>

theorem C8_release_name_and_requirement:
  assumes "v \<noteq> []"
  shows "release_config v =
           Inr (''spconv-cu'' @ filter (\<lambda>c. c \<noteq> CHR ''.'') v,
                [''cumm-cu'' @ filter (\<lambda>c. c \<noteq> CHR ''.'') v @ ''>=0.7.11, <1.0.0''])
     \<and> (\<forall>args m. environ w ''CUMM_CUDA_VERSION'' = Some v \<and> manifest core w = (Inr args, m) \<longrightarrow>
           name args = ''spconv-cu'' @ filter (\<lambda>c. c \<noteq> CHR ''.'') v
         \<and> install_requires args =
             [''pccm>=0.4.16'', ''ccimport>=0.4.4'', ''pybind11>=2.6.0'', ''fire'',
              ''numpy<2.0.0'',
              ''cumm-cu'' @ filter (\<lambda>c. c \<noteq> CHR ''.'') v @ ''>=0.7.11, <1.0.0'']
         \<and> ''cumm'' \<notin> set (install_requires args))"
proof -
  have a: "release_config v =
           Inr (''spconv-cu'' @ filter (\<lambda>c. c \<noteq> CHR ''.'') v,
                [''cumm-cu'' @ filter (\<lambda>c. c \<noteq> CHR ''.'') v @ ''>=0.7.11, <1.0.0''])"
    using assms by (simp add: release_config_def NAME_def str_replace_removes Let_def)
  have b: "\<forall>args m. environ w ''CUMM_CUDA_VERSION'' = Some v \<and> manifest core w = (Inr args, m) \<longrightarrow>
           name args = ''spconv-cu'' @ filter (\<lambda>c. c \<noteq> CHR ''.'') v
         \<and> install_requires args =
             [''pccm>=0.4.16'', ''ccimport>=0.4.4'', ''pybind11>=2.6.0'', ''fire'',
              ''numpy<2.0.0'',
              ''cumm-cu'' @ filter (\<lambda>c. c \<noteq> CHR ''.'') v @ ''>=0.7.11, <1.0.0'']
         \<and> ''cumm'' \<notin> set (install_requires args)"
  proof (intro allI impI)
    fix args m
    assume h: "environ w ''CUMM_CUDA_VERSION'' = Some v \<and> manifest core w = (Inr args, m)"
    from run_fields(1) [of core w args m] h
    have n: "name args = NAME @ ''-cu'' @ str_replace CHR ''.'' [] v"
      and r: "install_requires args =
               REQUIRED [''cumm-cu'' @ str_replace CHR ''.'' [] v @ ''>=0.7.11, <1.0.0'']"
      by auto
    show "name args = ''spconv-cu'' @ filter (\<lambda>c. c \<noteq> CHR ''.'') v
         \<and> install_requires args =
             [''pccm>=0.4.16'', ''ccimport>=0.4.4'', ''pybind11>=2.6.0'', ''fire'',
              ''numpy<2.0.0'',
              ''cumm-cu'' @ filter (\<lambda>c. c \<noteq> CHR ''.'') v @ ''>=0.7.11, <1.0.0'']
         \<and> ''cumm'' \<notin> set (install_requires args)"
      by (simp add: n r NAME_def REQUIRED_def str_replace_removes)
  qed
  from a b show ?thesis by (rule conjI)
qed

theorem C8_witness:
  "release_config ''11.8'' = Inr (''spconv-cu118'', [''cumm-cu118>=0.7.11, <1.0.0''])
   \<and> (\<exists>args m. manifest example_core example_world = (Inr args, m)
        \<and> name args = ''spconv-cu118''
        \<and> install_requires args =
             [''pccm>=0.4.16'', ''ccimport>=0.4.4'', ''pybind11>=2.6.0'', ''fire'',
              ''numpy<2.0.0'', ''cumm-cu118>=0.7.11, <1.0.0''])"
proof -
  have ne: "''11.8'' \<noteq> []" by simp
  note t = C8_release_name_and_requirement [OF ne, of example_world example_core]
  from example_run obtain args m where
    run: "manifest example_core example_world = (Inr args, m)" by blast
  from t have a: "release_config ''11.8'' = Inr (''spconv-cu118'', [''cumm-cu118>=0.7.11, <1.0.0''])"
    by simp
  from t run example_world_inputs(1)
  have "name args = ''spconv-cu118''
        \<and> install_requires args =
             [''pccm>=0.4.16'', ''ccimport>=0.4.4'', ''pybind11>=2.6.0'', ''fire'',
              ''numpy<2.0.0'', ''cumm-cu118>=0.7.11, <1.0.0'']"
    by simp
  with run have "manifest example_core example_world = (Inr args, m)
        \<and> name args = ''spconv-cu118''
        \<and> install_requires args =
             [''pccm>=0.4.16'', ''ccimport>=0.4.4'', ''pybind11>=2.6.0'', ''fire'',
              ''numpy<2.0.0'', ''cumm-cu118>=0.7.11, <1.0.0'']"
    by simp
  then have "\<exists>args m. manifest example_core example_world = (Inr args, m)
        \<and> name args = ''spconv-cu118''
        \<and> install_requires args =
             [''pccm>=0.4.16'', ''ccimport>=0.4.4'', ''pybind11>=2.6.0'', ''fire'',
              ''numpy<2.0.0'', ''cumm-cu118>=0.7.11, <1.0.0'']"
    by (intro exI)
  with a show ?thesis by (rule conjI)
qed




text \<open>
  C10, as stated, fails for a README that exists. A \<open>README.md\<close> holding \<open># SpConv\<close>, a
  line ending \<open>CR LF\<close> and \<open>fast\<close> is read in text mode, so the long description is a
  newline followed by \<open># SpConv\<close>, \<open>LF\<close> and \<open>fast\<close>: not a newline followed by the contents
  of the file. And a \<open>README.md\<close> that exists but is not valid UTF-8 makes the read raise
  UnicodeDecodeError, which \<open>except FileNotFoundError\<close> does not catch: the run ends
  with that exception and there is no long description.
\<close>

theorem C10_counterexample:
  "files (world_with_readme (Inr (''# SpConv'' @ [CHR 0x0D, CHR 0x0A] @ ''fast'')))
      (path_join (here (world_with_readme (Inr (''# SpConv'' @ [CHR 0x0D, CHR 0x0A] @ ''fast''))))
         ''README.md'')
     = Inr (''# SpConv'' @ [CHR 0x0D, CHR 0x0A] @ ''fast'')
   \<and> \<not> isl (fst (manifest example_core
          (world_with_readme (Inr (''# SpConv'' @ [CHR 0x0D, CHR 0x0A] @ ''fast'')))))
   \<and> long_description (projr (fst (manifest example_core
          (world_with_readme (Inr (''# SpConv'' @ [CHR 0x0D, CHR 0x0A] @ ''fast''))))))
       = [CHR 0x0A] @ ''# SpConv'' @ [CHR 0x0A] @ ''fast''
   \<and> long_description (projr (fst (manifest example_core
          (world_with_readme (Inr (''# SpConv'' @ [CHR 0x0D, CHR 0x0A] @ ''fast''))))))
       \<noteq> [CHR 0x0A] @ ''# SpConv'' @ [CHR 0x0D, CHR 0x0A] @ ''fast''
   \<and> files (world_with_readme (Inl (UnicodeDecodeError ''invalid start byte'')))
      (path_join (here (world_with_readme (Inl (UnicodeDecodeError ''invalid start byte''))))
         ''README.md'')
     = Inl (UnicodeDecodeError ''invalid start byte'')
   \<and> fst (manifest example_core
          (world_with_readme (Inl (UnicodeDecodeError ''invalid start byte''))))
       = Inl (UnicodeDecodeError ''invalid start byte'')"
proof -
  let ?crlf = "world_with_readme (Inr (''# SpConv'' @ [CHR 0x0D, CHR 0x0A] @ ''fast''))"
  let ?bad = "world_with_readme (Inl (UnicodeDecodeError ''invalid start byte''))"
  have e: "\<And>r. environ (world_with_readme r) ''CUMM_CUDA_VERSION'' = Some ''11.8''"
    by (simp add: world_with_readme_def example_world_def)
  have ne: "''11.8'' \<noteq> []" by simp
  have v: "\<And>r. read_version (files (world_with_readme r)) (cwd (world_with_readme r))
             = Inr ''2.3.8''"
    by (simp add: world_with_readme_def example_world_def path_join_def read_version_def
          read_text_def py_strip_def is_space_def)
  have wr: "\<And>r. write_error (world_with_readme r) (version_path (here (world_with_readme r)))
             = None"
    by (simp add: world_with_readme_def example_world_def)
  have f1: "files ?crlf (path_join (here ?crlf) ''README.md'')
     = Inr (''# SpConv'' @ [CHR 0x0D, CHR 0x0A] @ ''fast'')"
    by (simp add: world_with_readme_def example_world_def path_join_def)
  have r1: "read_long_description (files ?crlf) (here ?crlf)
     = Inr ([CHR 0x0A] @ ''# SpConv'' @ [CHR 0x0A] @ ''fast'')"
    by (simp add: world_with_readme_def example_world_def path_join_def
          read_long_description_def read_text_def)
  note run = manifest_run [OF e ne r1 v wr select_std_11_8, of example_core]
  have a: "\<not> isl (fst (manifest example_core ?crlf))" using run by simp
  have b: "long_description (projr (fst (manifest example_core ?crlf)))
       = [CHR 0x0A] @ ''# SpConv'' @ [CHR 0x0A] @ ''fast''"
    using run by simp
  have c: "long_description (projr (fst (manifest example_core ?crlf)))
       \<noteq> [CHR 0x0A] @ ''# SpConv'' @ [CHR 0x0D, CHR 0x0A] @ ''fast''"
    using run by simp
  have f2: "files ?bad (path_join (here ?bad) ''README.md'')
     = Inl (UnicodeDecodeError ''invalid start byte'')"
    by (simp add: world_with_readme_def example_world_def path_join_def)
  have r2: "read_long_description (files ?bad) (here ?bad)
     = Inl (UnicodeDecodeError ''invalid start byte'')"
    by (simp add: world_with_readme_def example_world_def path_join_def
          read_long_description_def read_text_def)
  have d: "fst (manifest example_core ?bad) = Inl (UnicodeDecodeError ''invalid start byte'')"
    using manifest_readme_error [OF e ne r2, of example_core] by simp
  from f1 a b c f2 d show ?thesis by (intro conjI)
qed

text \<open>
  C10, amended. If \<open>README.md\<close> is absent from the manifest's directory (opening it raises
  FileNotFoundError), the exception is caught: a run that reaches \<open>setup\<close> passes the short
  description \<open>spatial sparse convolution\<close> as the long description, and the absence is
  never the reason a run fails, since without the README a run ends exactly as it does
  with a README that is read, whatever its contents (the same error, or the same call of
  \<open>setup\<close> up to the long description). If \<open>README.md\<close> is read, the long description is a
  newline followed by the contents as text mode delivers them, \<open>CR LF\<close> and \<open>CR\<close> arriving
  as \<open>LF\<close>; for contents without a \<open>CR\<close> that is a newline followed by the contents. Any
  other exception raised by reading \<open>README.md\<close> (it is a directory, may not be read, is not
  valid UTF-8) is not caught and ends the run, CUMM_CUDA_VERSION being set.
\<close>

theorem C10_readme_fallback:
  "((\<exists>p. files w (path_join (here w) ''README.md'') = Inl (FileNotFoundError p)) \<longrightarrow>
      (\<forall>args m. manifest core w = (Inr args, m) \<longrightarrow>
         long_description args = ''spatial sparse convolution''))
   \<and> (\<forall>raw. files w (path_join (here w) ''README.md'') = Inr raw \<longrightarrow>
      (\<forall>args m. manifest core w = (Inr args, m) \<longrightarrow>
         long_description args = CHR 0x0A # universal_newlines raw))
   \<and> (\<forall>raw. CHR 0x0D \<notin> set raw \<longrightarrow> universal_newlines raw = raw)
   \<and> (\<forall>p raw.
        map_sum id (\<lambda>a. a\<lparr>long_description := []\<rparr>)
          (fst (manifest core (w\<lparr>files := (files w)(path_join (here w) ''README.md'' :=
                                              Inl (FileNotFoundError p))\<rparr>)))
        = map_sum id (\<lambda>a. a\<lparr>long_description := []\<rparr>)
          (fst (manifest core (w\<lparr>files := (files w)(path_join (here w) ''README.md'' :=
                                              Inr raw)\<rparr>))))
   \<and> (\<forall>e v. files w (path_join (here w) ''README.md'') = Inl e
          \<and> (\<forall>p. e \<noteq> FileNotFoundError p)
          \<and> environ w ''CUMM_CUDA_VERSION'' = Some v \<and> v \<noteq> [] \<longrightarrow>
        fst (manifest core w) = Inl e)"
proof (intro conjI allI impI)
  fix args m
  assume "\<exists>p. files w (path_join (here w) ''README.md'') = Inl (FileNotFoundError p)"
    and "manifest core w = (Inr args, m)"
  then show "long_description args = ''spatial sparse convolution''"
    using run_fields(2) [of core w args m]
    by (auto simp: read_long_description_def read_text_def DESCRIPTION_def)
next
  fix raw args m
  assume "files w (path_join (here w) ''README.md'') = Inr raw"
    and "manifest core w = (Inr args, m)"
  then show "long_description args = CHR 0x0A # universal_newlines raw"
    using run_fields(2) [of core w args m]
    by (simp add: read_long_description_def read_text_def)
next
  fix raw :: string
  assume "CHR 0x0D \<notin> set raw"
  then show "universal_newlines raw = raw"
    by (induction raw rule: universal_newlines.induct) auto
next
  fix p raw
  let ?w1 = "w\<lparr>files := (files w)(path_join (here w) ''README.md'' :=
                    Inl (FileNotFoundError p))\<rparr>"
  let ?w2 = "w\<lparr>files := (files w)(path_join (here w) ''README.md'' := Inr raw)\<rparr>"
  have l1: "read_long_description (files ?w1) (here ?w1) = Inr DESCRIPTION"
    by (simp add: read_long_description_def read_text_def)
  have l2: "read_long_description (files ?w2) (here ?w2)
              = Inr ([CHR 0x0A] @ universal_newlines raw)"
    by (simp add: read_long_description_def read_text_def)
  have v1: "read_version (files ?w1) (cwd ?w1) = read_version (files w) (cwd w)"
    using readme_is_not_version_file [of "here w" "cwd w"]
    by (auto simp: read_version_def read_text_def)
  have v2: "read_version (files ?w2) (cwd ?w2) = read_version (files w) (cwd w)"
    using readme_is_not_version_file [of "here w" "cwd w"]
    by (auto simp: read_version_def read_text_def)
  have x1: "write_error ?w1 (version_path (here ?w1)) = write_error w (version_path (here w))"
    by simp
  have x2: "write_error ?w2 (version_path (here ?w2)) = write_error w (version_path (here w))"
    by simp
  have e1: "environ ?w1 ''CUMM_CUDA_VERSION'' = environ w ''CUMM_CUDA_VERSION''" by simp
  have e2: "environ ?w2 ''CUMM_CUDA_VERSION'' = environ w ''CUMM_CUDA_VERSION''" by simp
  show "map_sum id (\<lambda>a. a\<lparr>long_description := []\<rparr>) (fst (manifest core ?w1))
        = map_sum id (\<lambda>a. a\<lparr>long_description := []\<rparr>) (fst (manifest core ?w2))"
  proof (cases "environ w ''CUMM_CUDA_VERSION'' = None \<or> environ w ''CUMM_CUDA_VERSION'' = Some []")
    case True
    from True e1 have u1: "environ ?w1 ''CUMM_CUDA_VERSION'' = None
        \<or> environ ?w1 ''CUMM_CUDA_VERSION'' = Some []" by simp
    from True e2 have u2: "environ ?w2 ''CUMM_CUDA_VERSION'' = None
        \<or> environ ?w2 ''CUMM_CUDA_VERSION'' = Some []" by simp
    from manifest_unset [OF u1, of core] manifest_unset [OF u2, of core]
    show ?thesis by simp
  next
    case False
    then obtain v where v: "environ w ''CUMM_CUDA_VERSION'' = Some v" "v \<noteq> []" by auto
    from v e1 have ev1: "environ ?w1 ''CUMM_CUDA_VERSION'' = Some v" by simp
    from v e2 have ev2: "environ ?w2 ''CUMM_CUDA_VERSION'' = Some v" by simp
    show ?thesis
    proof (cases "read_version (files w) (cwd w)")
      case (Inl e)
      from Inl v1 have n1: "read_version (files ?w1) (cwd ?w1) = Inl e" by simp
      from Inl v2 have n2: "read_version (files ?w2) (cwd ?w2) = Inl e" by simp
      from manifest_version_error [OF ev1 v(2) l1 n1, of core]
        manifest_version_error [OF ev2 v(2) l2 n2, of core]
      show ?thesis by simp
    next
      case (Inr vn)
      from Inr v1 have s1: "read_version (files ?w1) (cwd ?w1) = Inr vn" by simp
      from Inr v2 have s2: "read_version (files ?w2) (cwd ?w2) = Inr vn" by simp
      show ?thesis
      proof (cases "write_error w (version_path (here w))")
        case (Some e)
        from Some x1 have y1: "write_error ?w1 (version_path (here ?w1)) = Some e" by simp
        from Some x2 have y2: "write_error ?w2 (version_path (here ?w2)) = Some e" by simp
        from manifest_write_error [OF ev1 v(2) l1 s1 y1, of core]
          manifest_write_error [OF ev2 v(2) l2 s2 y2, of core]
        show ?thesis by simp
      next
        case None
        from None x1 have y1: "write_error ?w1 (version_path (here ?w1)) = None" by simp
        from None x2 have y2: "write_error ?w2 (version_path (here ?w2)) = None" by simp
        show ?thesis
        proof (cases "select_std v")
          case (Inl e)
          from manifest_bad_version [OF ev1 v(2) l1 s1 y1 Inl, of core]
            manifest_bad_version [OF ev2 v(2) l2 s2 y2 Inl, of core]
          show ?thesis by simp
        next
          case (Inr std)
          from manifest_run [OF ev1 v(2) l1 s1 y1 Inr, of core]
            manifest_run [OF ev2 v(2) l2 s2 y2 Inr, of core]
          show ?thesis by simp
        qed
      qed
    qed
  qed
next
  fix e v
  assume h: "files w (path_join (here w) ''README.md'') = Inl e
          \<and> (\<forall>p. e \<noteq> FileNotFoundError p)
          \<and> environ w ''CUMM_CUDA_VERSION'' = Some v \<and> v \<noteq> []"
  then have "read_long_description (files w) (here w) = Inl e"
    by (cases e) (simp_all add: read_long_description_def read_text_def)
  with h manifest_readme_error [of w v e core]
  show "fst (manifest core w) = Inl e" by simp
qed

theorem C10_witness:
  "files example_world (path_join (here example_world) ''README.md'')
     = Inl (FileNotFoundError ''/work/spconv/README.md'')
   \<and> (\<exists>args m. manifest example_core example_world = (Inr args, m)
        \<and> long_description args = ''spatial sparse convolution'')
   \<and> files (world_with_readme (Inr ''# SpConv''))
        (path_join (here (world_with_readme (Inr ''# SpConv''))) ''README.md'')
     = Inr ''# SpConv''
   \<and> (\<exists>args m. manifest example_core (world_with_readme (Inr ''# SpConv'')) = (Inr args, m)
        \<and> long_description args = CHR 0x0A # ''# SpConv'')
   \<and> fst (manifest example_core
        (world_with_readme (Inl (IsADirectoryError ''/work/spconv/README.md''))))
     = Inl (IsADirectoryError ''/work/spconv/README.md'')"
proof -
  let ?rd = "world_with_readme (Inr ''# SpConv'')"
  let ?dir = "world_with_readme (Inl (IsADirectoryError ''/work/spconv/README.md''))"
  have e: "\<And>r. environ (world_with_readme r) ''CUMM_CUDA_VERSION'' = Some ''11.8''"
    by (simp add: world_with_readme_def example_world_def)
  have ne: "''11.8'' \<noteq> []" by simp
  have v: "\<And>r. read_version (files (world_with_readme r)) (cwd (world_with_readme r))
             = Inr ''2.3.8''"
    by (simp add: world_with_readme_def example_world_def path_join_def read_version_def
          read_text_def py_strip_def is_space_def)
  have wr: "\<And>r. write_error (world_with_readme r) (version_path (here (world_with_readme r)))
             = None"
    by (simp add: world_with_readme_def example_world_def)
  have f0: "files example_world (path_join (here example_world) ''README.md'')
     = Inl (FileNotFoundError ''/work/spconv/README.md'')"
    by (simp add: example_world_def path_join_def)
  have f1: "files ?rd (path_join (here ?rd) ''README.md'') = Inr ''# SpConv''"
    by (simp add: world_with_readme_def example_world_def path_join_def)
  have f2: "files ?dir (path_join (here ?dir) ''README.md'')
              = Inl (IsADirectoryError ''/work/spconv/README.md'')"
    by (simp add: world_with_readme_def example_world_def path_join_def)
  have r1: "read_long_description (files ?rd) (here ?rd) = Inr ([CHR 0x0A] @ ''# SpConv'')"
    by (simp add: world_with_readme_def example_world_def path_join_def
          read_long_description_def read_text_def)
  have cr: "CHR 0x0D \<notin> set ''# SpConv''" by simp
  have a: "\<exists>args m. manifest example_core example_world = (Inr args, m)
        \<and> long_description args = ''spatial sparse convolution''"
  proof -
    from example_run obtain args m where
      run: "manifest example_core example_world = (Inr args, m)" by blast
    from C10_readme_fallback [of example_world example_core] f0 run
    have "long_description args = ''spatial sparse convolution''" by blast
    with run have "manifest example_core example_world = (Inr args, m)
        \<and> long_description args = ''spatial sparse convolution''" by simp
    then show ?thesis by (intro exI)
  qed
  have b: "\<exists>args m. manifest example_core ?rd = (Inr args, m)
        \<and> long_description args = CHR 0x0A # ''# SpConv''"
  proof -
    from manifest_run [OF e ne r1 v wr select_std_11_8, of example_core] obtain args m where
      run: "manifest example_core ?rd = (Inr args, m)" by simp
    note t = C10_readme_fallback [of ?rd example_core]
    from t f1 run have "long_description args = CHR 0x0A # universal_newlines ''# SpConv''"
      by blast
    moreover from t cr have "universal_newlines ''# SpConv'' = ''# SpConv''" by blast
    ultimately have "long_description args = CHR 0x0A # ''# SpConv''" by simp
    with run have "manifest example_core ?rd = (Inr args, m)
        \<and> long_description args = CHR 0x0A # ''# SpConv''" by simp
    then show ?thesis by (intro exI)
  qed
  have c: "fst (manifest example_core ?dir) = Inl (IsADirectoryError ''/work/spconv/README.md'')"
  proof -
    note t = C10_readme_fallback [of ?dir example_core]
    then have "\<forall>e v. files ?dir (path_join (here ?dir) ''README.md'') = Inl e
          \<and> (\<forall>p. e \<noteq> FileNotFoundError p)
          \<and> environ ?dir ''CUMM_CUDA_VERSION'' = Some v \<and> v \<noteq> [] \<longrightarrow>
        fst (manifest example_core ?dir) = Inl e"
      by (elim conjE)
    with f2 e [of "Inl (IsADirectoryError ''/work/spconv/README.md'')"] ne
    show ?thesis by auto
  qed
  from f0 a f1 b c show ?thesis by (intro conjI)
qed

end
